theory Spec2Isabelle
  imports Complex_Main "HOL-Library.Monad_Syntax"
begin

section \<open>Host interface\<close>

text \<open>
  The dashboard of \<^verbatim>\<open>dashboard_render.cc\<close> draws through two host calls,
  \<^verbatim>\<open>mjr_rectangle\<close> and \<^verbatim>\<open>mjr_text\<close>. A call is recorded as a value of type
  \<open>draw\<close>; a piece of drawing code is the list of the calls it makes, in order.

  Conventions of the embedding:
  \<^item> a C++ \<^verbatim>\<open>double\<close> or \<^verbatim>\<open>float\<close> is a \<open>real\<close> (no rounding, no NaN), an \<^verbatim>\<open>int\<close> an
    \<open>int\<close>;
  \<^item> a pointer is an \<open>option\<close>: \<open>None\<close> is \<^verbatim>\<open>nullptr\<close>;
  \<^item> a function that dereferences a pointer or indexes an array returns an \<open>option\<close>:
    \<open>None\<close> is the undefined behaviour of a null or out-of-range access;
  \<^item> a C++ member \<^verbatim>\<open>name_\<close> is the record field \<open>name_m\<close> (a name may not end in an
    underscore here).
\<close>

type_synonym mjrContext_ptr = "nat option"

record mjrRect =
  left :: int
  bottom :: int
  width :: int
  height :: int

record mjModel =
  nv :: nat

record mjData =
  qvel :: "real list"

datatype draw =
  mjr_rectangle mjrRect real real real real
| mjr_text int string mjrContext_ptr real real real real real

definition M_PI :: real where
  "M_PI = pi"

text \<open>\<^verbatim>\<open>static_cast<int>\<close> of a double truncates towards zero.\<close>

definition static_cast_int :: "real \<Rightarrow> int" where
  "static_cast_int v = (if 0 \<le> v then \<lfloor>v\<rfloor> else \<lceil>v\<rceil>)"

text \<open>MuJoCo's \<^verbatim>\<open>mju_norm3\<close>: the Euclidean length of a 3-vector.\<close>

definition mju_norm3 :: "real \<times> real \<times> real \<Rightarrow> real" where
  "mju_norm3 v = (case v of (a, b, c) \<Rightarrow> sqrt (a * a + b * b + c * c))"

subsection \<open>Formatting with \<^verbatim>\<open>snprintf\<close>\<close>

fun show_nat :: "nat \<Rightarrow> string" where
  "show_nat n =
     (if n < 10 then [''0123456789'' ! n]
      else show_nat (n div 10) @ [''0123456789'' ! (n mod 10)])"

declare show_nat.simps [simp del]

definition show_int :: "int \<Rightarrow> string" where
  "show_int k = (if k < 0 then CHR ''-'' # show_nat (nat (- k)) else show_nat (nat k))"

text \<open>
  \<^verbatim>\<open>snprintf(buf, sizeof(buf), "%d", k)\<close> into a buffer of 10 bytes keeps at most 9
  characters.
\<close>

definition snprintf_d :: "int \<Rightarrow> string" where
  "snprintf_d k = take 9 (show_int k)"

text \<open>\<^verbatim>\<open>"%.0f"\<close> rounds to the nearest integer, a tie to the even one.\<close>

definition round_half_even :: "real \<Rightarrow> int" where
  "round_half_even v =
     (let f = \<lfloor>v\<rfloor>; d = v - of_int f
      in if d < 1 / 2 then f else if 1 / 2 < d then f + 1 else if even f then f else f + 1)"

definition snprintf_0f :: "real \<Rightarrow> string" where
  "snprintf_0f v = take 9 (show_int (round_half_even v))"

section \<open>Drawing helpers\<close>

definition DrawArc ::
  "real \<Rightarrow> real \<Rightarrow> real \<Rightarrow> real \<Rightarrow> real \<Rightarrow> real \<Rightarrow> real \<Rightarrow> real \<Rightarrow> real \<Rightarrow> mjrContext_ptr
   \<Rightarrow> draw list" where
  "DrawArc center_x center_y radius start_angle end_angle r g b a mjr_context =
     (let segments = (100 :: nat);
          angle_step = (end_angle - start_angle) / real segments;
          segment_length = radius * 0.05
      in map (\<lambda>i.
           let angle = start_angle + real i * angle_step;
               x = center_x + radius * cos angle;
               y = center_y + radius * sin angle
           in mjr_rectangle
                \<lparr>left = static_cast_int (x - segment_length / 2),
                 bottom = static_cast_int (y - segment_length / 2),
                 width = static_cast_int segment_length,
                 height = static_cast_int segment_length\<rparr> r g b a)
         [0..<segments])"

definition DrawCircle ::
  "real \<Rightarrow> real \<Rightarrow> real \<Rightarrow> real \<Rightarrow> real \<Rightarrow> real \<Rightarrow> real \<Rightarrow> mjrContext_ptr \<Rightarrow> draw list" where
  "DrawCircle center_x center_y radius r g b a mjr_context =
     (let segments = (100 :: nat);
          angle_step = (2 * M_PI) / real segments;
          segment_length = radius * 0.05
      in map (\<lambda>i.
           let angle = real i * angle_step;
               x = center_x + radius * cos angle;
               y = center_y + radius * sin angle
           in mjr_rectangle
                \<lparr>left = static_cast_int (x - segment_length / 2),
                 bottom = static_cast_int (y - segment_length / 2),
                 width = static_cast_int segment_length,
                 height = static_cast_int segment_length\<rparr> r g b a)
         [0..<segments])"

text \<open>
  The loop of \<^verbatim>\<open>DrawFilledCircle\<close>, from counter \<open>i\<close> on: it stops at \<open>rings\<close> or at
  the first negative ring radius (the \<^verbatim>\<open>break\<close>).
\<close>

function DrawFilledCircle_loop ::
  "int \<Rightarrow> int \<Rightarrow> real \<Rightarrow> real \<Rightarrow> real \<Rightarrow> real \<Rightarrow> real \<Rightarrow> real \<Rightarrow> real \<Rightarrow> mjrContext_ptr
   \<Rightarrow> draw list" where
  "DrawFilledCircle_loop i rings center_x center_y radius r g b a mjr_context =
     (if i < rings then
        (let ring_radius = radius - of_int (i * 2)
         in if ring_radius < 0 then []
            else DrawCircle center_x center_y ring_radius r g b a mjr_context
                 @ DrawFilledCircle_loop (i + 1) rings center_x center_y radius r g b a
                     mjr_context)
      else [])"
  by pat_completeness auto
termination
  by (relation "measure (\<lambda>(i, rings, _). nat (rings - i))") auto

declare DrawFilledCircle_loop.simps [simp del]

definition DrawFilledCircle ::
  "real \<Rightarrow> real \<Rightarrow> real \<Rightarrow> real \<Rightarrow> real \<Rightarrow> real \<Rightarrow> real \<Rightarrow> mjrContext_ptr \<Rightarrow> draw list" where
  "DrawFilledCircle center_x center_y radius r g b a mjr_context =
     (let rings = static_cast_int (radius / 2)
      in DrawFilledCircle_loop 0 rings center_x center_y radius r g b a mjr_context)"

section \<open>Display elements\<close>

record DisplayElement =
  x_m :: real
  y_m :: real
  width_m :: real
  height_m :: real
  mjr_context_m :: mjrContext_ptr

record Speedometer = DisplayElement +
  speed_m :: real

record Tachometer = DisplayElement +
  rpm_m :: real

record FuelGauge = DisplayElement +
  fuel_level_m :: real

text \<open>The constructors of \<^verbatim>\<open>dashboard_render.h\<close>: the stored value starts at \<open>0.0\<close>.\<close>

definition Speedometer_ctor ::
  "real \<Rightarrow> real \<Rightarrow> real \<Rightarrow> real \<Rightarrow> mjrContext_ptr \<Rightarrow> Speedometer" where
  "Speedometer_ctor x y w h context =
     \<lparr>x_m = x, y_m = y, width_m = w, height_m = h, mjr_context_m = context, speed_m = 0\<rparr>"

definition Tachometer_ctor ::
  "real \<Rightarrow> real \<Rightarrow> real \<Rightarrow> real \<Rightarrow> mjrContext_ptr \<Rightarrow> Tachometer" where
  "Tachometer_ctor x y w h context =
     \<lparr>x_m = x, y_m = y, width_m = w, height_m = h, mjr_context_m = context, rpm_m = 0\<rparr>"

definition FuelGauge_ctor ::
  "real \<Rightarrow> real \<Rightarrow> real \<Rightarrow> real \<Rightarrow> mjrContext_ptr \<Rightarrow> FuelGauge" where
  "FuelGauge_ctor x y w h context =
     \<lparr>x_m = x, y_m = y, width_m = w, height_m = h, mjr_context_m = context,
      fuel_level_m = 0\<rparr>"

definition UpdatePosition ::
  "real \<Rightarrow> real \<Rightarrow> 'a DisplayElement_scheme \<Rightarrow> 'a DisplayElement_scheme" where
  "UpdatePosition x y this = this\<lparr>x_m := x, y_m := y\<rparr>"

definition Speedometer_update :: "real \<Rightarrow> Speedometer \<Rightarrow> Speedometer" where
  "Speedometer_update v this = this\<lparr>speed_m := v\<rparr>"

definition Tachometer_update :: "real \<Rightarrow> Tachometer \<Rightarrow> Tachometer" where
  "Tachometer_update v this = this\<lparr>rpm_m := v\<rparr>"

definition FuelGauge_update :: "real \<Rightarrow> FuelGauge \<Rightarrow> FuelGauge" where
  "FuelGauge_update v this = this\<lparr>fuel_level_m := v\<rparr>"

text \<open>
  The status arc of a gauge is a sequence of \<^verbatim>\<open>DrawArc\<close> calls that share centre and
  radius; a call is kept as (start angle, end angle, colour).
\<close>

type_synonym rgba = "real \<times> real \<times> real \<times> real"
type_synonym arc = "real \<times> real \<times> rgba"

definition green :: rgba where "green = (0, 1, 0, 1)"
definition yellow :: rgba where "yellow = (1, 1, 0, 1)"
definition red :: rgba where "red = (1, 0, 0, 1)"

definition arc_colour :: "arc \<Rightarrow> rgba" where
  "arc_colour s = snd (snd s)"

definition arc_start :: "arc \<Rightarrow> real" where
  "arc_start s = fst s"

definition arc_end :: "arc \<Rightarrow> real" where
  "arc_end s = fst (snd s)"

definition DrawArcs :: "real \<Rightarrow> real \<Rightarrow> real \<Rightarrow> mjrContext_ptr \<Rightarrow> arc list \<Rightarrow> draw list" where
  "DrawArcs center_x center_y radius mjr_context arcs =
     concat (map (\<lambda>s. case s of (a0, a1, r, g, b, a) \<Rightarrow>
                    DrawArc center_x center_y radius a0 a1 r g b a mjr_context) arcs)"

text \<open>The scale of the speedometer and of the tachometer runs from \<open>-\<pi>/2\<close> to \<open>\<pi>/2\<close>.\<close>

definition start_angle :: real where
  "start_angle = - M_PI / 2"

definition end_angle :: real where
  "end_angle = M_PI / 2"

subsection \<open>Speedometer\<close>

definition min_speed :: real where "min_speed = 0"
definition max_speed :: real where "max_speed = 240"
definition Speedometer_num_marks :: nat where "Speedometer_num_marks = 13"

definition Speedometer_clamp :: "real \<Rightarrow> real" where
  "Speedometer_clamp v =
     (if v > max_speed then max_speed else if v < min_speed then min_speed else v)"

definition Speedometer_mark_angle :: "nat \<Rightarrow> real" where
  "Speedometer_mark_angle i =
     start_angle + (end_angle - start_angle) * real i / real (Speedometer_num_marks - 1)"

text \<open>The body of the scale loop for mark \<open>i\<close>: the mark, then its label on even \<open>i\<close>.\<close>

definition Speedometer_mark ::
  "real \<Rightarrow> real \<Rightarrow> real \<Rightarrow> mjrContext_ptr \<Rightarrow> nat \<Rightarrow> draw list" where
  "Speedometer_mark center_x center_y radius mjr_context i =
     (let angle = Speedometer_mark_angle i;
          mark_radius = radius - 10;
          mark_x = center_x + mark_radius * cos angle;
          mark_y = center_y + mark_radius * sin angle
      in mjr_rectangle
           \<lparr>left = static_cast_int (mark_x - 1), bottom = static_cast_int (mark_y - 1),
            width = 3, height = 3\<rparr> 1 1 1 1
         # (if i mod 2 = 0 then
              (let speed_value =
                     static_cast_int (min_speed + (max_speed - min_speed) * real i
                                        / real (Speedometer_num_marks - 1));
                   label_radius = radius - 30;
                   label_x = center_x + label_radius * cos angle;
                   label_y = center_y + label_radius * sin angle
               in [mjr_text 0 (snprintf_d speed_value) mjr_context label_x label_y 1 1 1])
            else []))"

definition speed_angle :: "real \<Rightarrow> real" where
  "speed_angle clamped_speed =
     start_angle + (end_angle - start_angle) * (clamped_speed / max_speed)"

definition Speedometer_arcs :: "real \<Rightarrow> arc list" where
  "Speedometer_arcs clamped_speed =
     (if clamped_speed < 80 then [(start_angle, speed_angle clamped_speed, green)]
      else (start_angle, start_angle + (end_angle - start_angle) * (80 / max_speed), green)
         # (if clamped_speed < 160 then
              [(start_angle + (end_angle - start_angle) * (80 / max_speed),
                speed_angle clamped_speed, yellow)]
            else
              [(start_angle + (end_angle - start_angle) * (80 / max_speed),
                start_angle + (end_angle - start_angle) * (160 / max_speed), yellow),
               (start_angle + (end_angle - start_angle) * (160 / max_speed),
                speed_angle clamped_speed, red)]))"

definition Speedometer_needle :: "real \<Rightarrow> real \<Rightarrow> real \<Rightarrow> real \<Rightarrow> draw list" where
  "Speedometer_needle center_x center_y radius angle =
     (let needle_length = radius - 40;
          needle_x = center_x + needle_length * cos angle;
          needle_y = center_y + needle_length * sin angle;
          num_needle_segments = (20 :: nat)
      in map (\<lambda>i.
           let t = real i / real (num_needle_segments - 1);
               segment_x = center_x + t * (needle_x - center_x);
               segment_y = center_y + t * (needle_y - center_y)
           in mjr_rectangle
                \<lparr>left = static_cast_int (segment_x - 2),
                 bottom = static_cast_int (segment_y - 2), width = 5, height = 5\<rparr> 1 0 0 1)
         [0..<num_needle_segments])"

definition Speedometer_render :: "Speedometer \<Rightarrow> draw list" where
  "Speedometer_render this =
     (if mjr_context_m this = None then []
      else
        (let clamped_speed = Speedometer_clamp (speed_m this);
             center_x = x_m this;
             center_y = y_m this;
             radius = width_m this;
             con = mjr_context_m this
         in DrawFilledCircle center_x center_y radius 0.1 0.1 0.1 1 con
            @ DrawCircle center_x center_y radius 0.8 0.8 0.8 1 con
            @ DrawCircle center_x center_y (radius - 5) 0.2 0.2 0.2 1 con
            @ concat (map (Speedometer_mark center_x center_y radius con)
                        [0..<Speedometer_num_marks])
            @ DrawArcs center_x center_y (radius - 20) con (Speedometer_arcs clamped_speed)
            @ Speedometer_needle center_x center_y radius (speed_angle clamped_speed)
            @ DrawFilledCircle center_x center_y 15 0 0 0 1 con
            @ DrawCircle center_x center_y 15 1 1 1 1 con
            @ [mjr_text 0 (snprintf_0f clamped_speed) con center_x (center_y + 5) 1 1 1,
               mjr_text 0 ''km/h'' con center_x (center_y - 15) 0.8 0.8 0.8,
               mjr_text 0 ''SPEED'' con center_x (center_y - radius - 10) 1 1 1]))"

subsection \<open>Tachometer\<close>

definition min_rpm :: real where "min_rpm = 0"
definition max_rpm :: real where "max_rpm = 8000"
definition Tachometer_num_marks :: nat where "Tachometer_num_marks = 9"

definition Tachometer_clamp :: "real \<Rightarrow> real" where
  "Tachometer_clamp v =
     (if v > max_rpm then max_rpm else if v < min_rpm then min_rpm else v)"

definition Tachometer_mark_angle :: "nat \<Rightarrow> real" where
  "Tachometer_mark_angle i =
     start_angle + (end_angle - start_angle) * real i / real (Tachometer_num_marks - 1)"

text \<open>
  The body of the scale loop for mark \<open>i\<close>: the mark, then its label (no test on
  \<open>i\<close> here). \<^verbatim>\<open>rpm_value / 1000\<close> is C++ integer division, which truncates.
\<close>

definition Tachometer_mark ::
  "real \<Rightarrow> real \<Rightarrow> real \<Rightarrow> mjrContext_ptr \<Rightarrow> nat \<Rightarrow> draw list" where
  "Tachometer_mark center_x center_y radius mjr_context i =
     (let angle = Tachometer_mark_angle i;
          mark_radius = radius - 10;
          mark_x = center_x + mark_radius * cos angle;
          mark_y = center_y + mark_radius * sin angle;
          rpm_value =
            static_cast_int (min_rpm + (max_rpm - min_rpm) * real i
                               / real (Tachometer_num_marks - 1));
          label_radius = radius - 25;
          label_x = center_x + label_radius * cos angle;
          label_y = center_y + label_radius * sin angle
      in [mjr_rectangle
            \<lparr>left = static_cast_int (mark_x - 1), bottom = static_cast_int (mark_y - 1),
             width = 3, height = 3\<rparr> 1 1 1 1,
          mjr_text 0 (snprintf_d (if 0 \<le> rpm_value then rpm_value div 1000
                                  else - ((- rpm_value) div 1000)))
            mjr_context label_x label_y 1 1 1])"

definition rpm_angle :: "real \<Rightarrow> real" where
  "rpm_angle clamped_rpm =
     start_angle + (end_angle - start_angle) * (clamped_rpm / max_rpm)"

definition Tachometer_arcs :: "real \<Rightarrow> arc list" where
  "Tachometer_arcs clamped_rpm =
     (if clamped_rpm < 4000 then [(start_angle, rpm_angle clamped_rpm, green)]
      else (start_angle, start_angle + (end_angle - start_angle) * (4000 / max_rpm), green)
         # (if clamped_rpm < 6000 then
              [(start_angle + (end_angle - start_angle) * (4000 / max_rpm),
                rpm_angle clamped_rpm, yellow)]
            else
              [(start_angle + (end_angle - start_angle) * (4000 / max_rpm),
                start_angle + (end_angle - start_angle) * (6000 / max_rpm), yellow),
               (start_angle + (end_angle - start_angle) * (6000 / max_rpm),
                rpm_angle clamped_rpm, red)]))"

text \<open>The needle of the two small gauges (tachometer and fuel gauge share this code).\<close>

definition small_needle :: "real \<Rightarrow> real \<Rightarrow> real \<Rightarrow> real \<Rightarrow> draw list" where
  "small_needle center_x center_y radius angle =
     (let needle_length = radius - 30;
          needle_x = center_x + needle_length * cos angle;
          needle_y = center_y + needle_length * sin angle;
          num_needle_segments = (15 :: nat)
      in map (\<lambda>i.
           let t = real i / real (num_needle_segments - 1);
               segment_x = center_x + t * (needle_x - center_x);
               segment_y = center_y + t * (needle_y - center_y)
           in mjr_rectangle
                \<lparr>left = static_cast_int (segment_x - 1.5),
                 bottom = static_cast_int (segment_y - 1.5), width = 4, height = 4\<rparr> 1 0 0 1)
         [0..<num_needle_segments])"

definition Tachometer_render :: "Tachometer \<Rightarrow> draw list" where
  "Tachometer_render this =
     (if mjr_context_m this = None then []
      else
        (let clamped_rpm = Tachometer_clamp (rpm_m this);
             center_x = x_m this;
             center_y = y_m this;
             radius = width_m this;
             con = mjr_context_m this
         in DrawFilledCircle center_x center_y radius 0.1 0.1 0.1 1 con
            @ DrawCircle center_x center_y radius 0.8 0.8 0.8 1 con
            @ DrawCircle center_x center_y (radius - 5) 0.2 0.2 0.2 1 con
            @ concat (map (Tachometer_mark center_x center_y radius con)
                        [0..<Tachometer_num_marks])
            @ DrawArcs center_x center_y (radius - 15) con (Tachometer_arcs clamped_rpm)
            @ small_needle center_x center_y radius (rpm_angle clamped_rpm)
            @ DrawFilledCircle center_x center_y 10 0 0 0 1 con
            @ DrawCircle center_x center_y 10 1 1 1 1 con
            @ [mjr_text 0 (snprintf_0f (clamped_rpm / 1000)) con center_x (center_y + 5) 1 1 1,
               mjr_text 0 ''RPM'' con center_x (center_y - 15) 0.8 0.8 0.8,
               mjr_text 0 ''TACH'' con center_x (center_y - radius - 10) 1 1 1]))"

subsection \<open>Fuel gauge\<close>

text \<open>The scale of the fuel gauge runs the other way, from \<open>\<pi>/2\<close> down to \<open>-\<pi>/2\<close>.\<close>

definition fuel_start_angle :: real where
  "fuel_start_angle = M_PI / 2"

definition fuel_end_angle :: real where
  "fuel_end_angle = - M_PI / 2"

definition FuelGauge_num_marks :: nat where "FuelGauge_num_marks = 11"

definition FuelGauge_clamp :: "real \<Rightarrow> real" where
  "FuelGauge_clamp v = (if v > 100 then 100 else if v < 0 then 0 else v)"

definition FuelGauge_mark_angle :: "nat \<Rightarrow> real" where
  "FuelGauge_mark_angle i =
     fuel_start_angle + (fuel_end_angle - fuel_start_angle) * real i
       / real (FuelGauge_num_marks - 1)"

text \<open>
  The body of the scale loop for mark \<open>i\<close>: the mark, then its label on even \<open>i\<close>. The
  label is computed from the clamped fuel level, here over exact reals: the code's double
  arithmetic can truncate to one less (at fuel 80 and mark 6 it prints 51, exact
  arithmetic gives 52).
\<close>

definition FuelGauge_mark ::
  "real \<Rightarrow> real \<Rightarrow> real \<Rightarrow> mjrContext_ptr \<Rightarrow> real \<Rightarrow> nat \<Rightarrow> draw list" where
  "FuelGauge_mark center_x center_y radius mjr_context clamped_fuel i =
     (let angle = FuelGauge_mark_angle i;
          mark_radius = radius - 10;
          mark_x = center_x + mark_radius * cos angle;
          mark_y = center_y + mark_radius * sin angle
      in mjr_rectangle
           \<lparr>left = static_cast_int (mark_x - 1), bottom = static_cast_int (mark_y - 1),
            width = 3, height = 3\<rparr> 1 1 1 1
         # (if i mod 2 = 0 then
              (let fuel_value = static_cast_int (100 - (clamped_fuel / 100) * real i * 10);
                   label_radius = radius - 25;
                   label_x = center_x + label_radius * cos angle;
                   label_y = center_y + label_radius * sin angle
               in [mjr_text 0 (snprintf_d fuel_value) mjr_context label_x label_y 1 1 1])
            else []))"

definition fuel_angle :: "real \<Rightarrow> real" where
  "fuel_angle clamped_fuel =
     fuel_start_angle + (fuel_end_angle - fuel_start_angle) * (1 - clamped_fuel / 100)"

definition mid_angle :: real where
  "mid_angle = fuel_start_angle + (fuel_end_angle - fuel_start_angle) * 0.25"

definition low_angle :: real where
  "low_angle = fuel_start_angle + (fuel_end_angle - fuel_start_angle) * 0.75"

definition FuelGauge_arcs :: "real \<Rightarrow> arc list" where
  "FuelGauge_arcs clamped_fuel =
     (if clamped_fuel > 75 then [(fuel_angle clamped_fuel, fuel_end_angle, green)]
      else if clamped_fuel > 25 then
        [(fuel_angle clamped_fuel, mid_angle, yellow), (mid_angle, fuel_end_angle, green)]
      else
        [(fuel_angle clamped_fuel, low_angle, red), (low_angle, mid_angle, yellow),
         (mid_angle, fuel_end_angle, green)])"

definition FuelGauge_render :: "FuelGauge \<Rightarrow> draw list" where
  "FuelGauge_render this =
     (if mjr_context_m this = None then []
      else
        (let clamped_fuel = FuelGauge_clamp (fuel_level_m this);
             center_x = x_m this;
             center_y = y_m this;
             radius = width_m this;
             con = mjr_context_m this
         in DrawFilledCircle center_x center_y radius 0.1 0.1 0.1 1 con
            @ DrawCircle center_x center_y radius 0.8 0.8 0.8 1 con
            @ DrawCircle center_x center_y (radius - 5) 0.2 0.2 0.2 1 con
            @ concat (map (FuelGauge_mark center_x center_y radius con clamped_fuel)
                        [0..<FuelGauge_num_marks])
            @ DrawArcs center_x center_y (radius - 15) con (FuelGauge_arcs clamped_fuel)
            @ small_needle center_x center_y radius (fuel_angle clamped_fuel)
            @ DrawFilledCircle center_x center_y 10 0 0 0 1 con
            @ DrawCircle center_x center_y 10 1 1 1 1 con
            @ [mjr_text 0 (snprintf_0f clamped_fuel) con center_x (center_y + 5) 1 1 1,
               mjr_text 0 ''%'' con center_x (center_y - 15) 0.8 0.8 0.8,
               mjr_text 0 ''FUEL'' con center_x (center_y - radius - 10) 1 1 1]))"

section \<open>Dashboard\<close>

text \<open>
  Modelled from the spec: \<^verbatim>\<open>mjpc/dashboard_data.h\<close>, which declares \<^verbatim>\<open>DashboardData\<close>,
  is not among the sources; the spec's telemetry snapshot has the three scalars that
  \<^verbatim>\<open>dashboard_render.cc\<close> reads and writes as \<^verbatim>\<open>data_.speed\<close>, \<^verbatim>\<open>data_.rpm\<close> and
  \<^verbatim>\<open>data_.fuel_level\<close>.
\<close>

record DashboardData =
  speed :: real
  rpm :: real
  fuel_level :: real

text \<open>
  The gauges are objects on the heap, made by \<^verbatim>\<open>new\<close>. The heap is the list of the
  objects allocated so far; the address of an object is its index, so \<^verbatim>\<open>new\<close> appends
  and the length of the heap counts the constructions.
\<close>

datatype obj =
  SpeedometerObj Speedometer
| TachometerObj Tachometer
| FuelGaugeObj FuelGauge

record Dashboard =
  data_m :: DashboardData
  dash_mjr_context_m :: mjrContext_ptr
  speedometer_m :: "nat option"
  tachometer_m :: "nat option"
  fuel_gauge_m :: "nat option"

record world =
  dash :: Dashboard
  heap :: "obj list"
  screen :: "draw list"

definition new_obj :: "obj \<Rightarrow> obj list \<Rightarrow> nat \<times> obj list" where
  "new_obj ob h = (length h, h @ [ob])"

text \<open>Dereferencing a typed pointer: \<open>None\<close> for a null or dangling one.\<close>

definition deref_Speedometer :: "nat option \<Rightarrow> obj list \<Rightarrow> Speedometer option" where
  "deref_Speedometer p h =
     (case p of None \<Rightarrow> None
      | Some a \<Rightarrow> if a < length h
                  then (case h ! a of SpeedometerObj s \<Rightarrow> Some s | _ \<Rightarrow> None) else None)"

definition deref_Tachometer :: "nat option \<Rightarrow> obj list \<Rightarrow> Tachometer option" where
  "deref_Tachometer p h =
     (case p of None \<Rightarrow> None
      | Some a \<Rightarrow> if a < length h
                  then (case h ! a of TachometerObj s \<Rightarrow> Some s | _ \<Rightarrow> None) else None)"

definition deref_FuelGauge :: "nat option \<Rightarrow> obj list \<Rightarrow> FuelGauge option" where
  "deref_FuelGauge p h =
     (case p of None \<Rightarrow> None
      | Some a \<Rightarrow> if a < length h
                  then (case h ! a of FuelGaugeObj s \<Rightarrow> Some s | _ \<Rightarrow> None) else None)"

text \<open>A member call \<^verbatim>\<open>p->f(...)\<close> that changes the object: read, change, write back.\<close>

definition on_Speedometer ::
  "(Speedometer \<Rightarrow> Speedometer) \<Rightarrow> nat option \<Rightarrow> obj list \<Rightarrow> obj list option" where
  "on_Speedometer f p h =
     do { s \<leftarrow> deref_Speedometer p h; Some (h[the p := SpeedometerObj (f s)]) }"

definition on_Tachometer ::
  "(Tachometer \<Rightarrow> Tachometer) \<Rightarrow> nat option \<Rightarrow> obj list \<Rightarrow> obj list option" where
  "on_Tachometer f p h =
     do { s \<leftarrow> deref_Tachometer p h; Some (h[the p := TachometerObj (f s)]) }"

definition on_FuelGauge ::
  "(FuelGauge \<Rightarrow> FuelGauge) \<Rightarrow> nat option \<Rightarrow> obj list \<Rightarrow> obj list option" where
  "on_FuelGauge f p h =
     do { s \<leftarrow> deref_FuelGauge p h; Some (h[the p := FuelGaugeObj (f s)]) }"

text \<open>The constructor \<^verbatim>\<open>Dashboard::Dashboard()\<close>, with nothing allocated or drawn yet.\<close>

definition Dashboard_ctor :: world where
  "Dashboard_ctor =
     \<lparr>dash = \<lparr>data_m = \<lparr>speed = 0, rpm = 0, fuel_level = 100\<rparr>,
              dash_mjr_context_m = None,
              speedometer_m = None, tachometer_m = None, fuel_gauge_m = None\<rparr>,
      heap = [], screen = []\<rparr>"

subsection \<open>\<^verbatim>\<open>Dashboard::UpdateData\<close>\<close>

text \<open>\<^verbatim>\<open>data->qvel[i]\<close>: \<open>None\<close> when \<open>data\<close> is null or has no coordinate \<open>i\<close>.\<close>

definition read_qvel :: "mjData option \<Rightarrow> nat \<Rightarrow> real option" where
  "read_qvel data i =
     (case data of None \<Rightarrow> None
      | Some d \<Rightarrow> if i < length (qvel d) then Some (qvel d ! i) else None)"

text \<open>Lines 51 to 70: the new snapshot, from the old one and the velocity read.\<close>

definition sample :: "real \<times> real \<times> real \<Rightarrow> DashboardData \<Rightarrow> DashboardData" where
  "sample velocity D =
     (let speed_ms = mju_norm3 velocity;
          D1 = D\<lparr>speed := speed_ms * 3.6\<rparr>;
          rpm_scaling = 100;
          D2 = D1\<lparr>rpm := speed D1 * rpm_scaling\<rparr>;
          D3 = (if rpm D2 > 8000 then D2\<lparr>rpm := 8000\<rparr>
                else if rpm D2 < 0 then D2\<lparr>rpm := 0\<rparr> else D2);
          D4 = D3\<lparr>fuel_level := fuel_level D3 - 0.001\<rparr>
      in if fuel_level D4 < 0 then D4\<lparr>fuel_level := 0\<rparr> else D4)"

text \<open>Lines 72 to 75: the new values go to the gauges that exist.\<close>

definition push_values :: "Dashboard \<Rightarrow> obj list \<Rightarrow> obj list option" where
  "push_values d h =
     do {
       h1 \<leftarrow> (if speedometer_m d \<noteq> None
               then on_Speedometer (Speedometer_update (speed (data_m d))) (speedometer_m d) h
               else Some h);
       h2 \<leftarrow> (if tachometer_m d \<noteq> None
               then on_Tachometer (Tachometer_update (rpm (data_m d))) (tachometer_m d) h1
               else Some h1);
       (if fuel_gauge_m d \<noteq> None
        then on_FuelGauge (FuelGauge_update (fuel_level (data_m d))) (fuel_gauge_m d) h2
        else Some h2)
     }"

definition UpdateData :: "mjModel option \<Rightarrow> mjData option \<Rightarrow> world \<Rightarrow> world option" where
  "UpdateData model data w =
     do {
       v0 \<leftarrow> read_qvel data 0;
       v1 \<leftarrow> read_qvel data 1;
       v2 \<leftarrow> read_qvel data 2;
       let d = (dash w)\<lparr>data_m := sample (v0, v1, v2) (data_m (dash w))\<rparr>;
       h \<leftarrow> push_values d (heap w);
       Some (w\<lparr>dash := d, heap := h\<rparr>)
     }"

subsection \<open>\<^verbatim>\<open>Dashboard::Render\<close>\<close>

text \<open>
  Lines 142 to 197: the centres of the three gauges in a frame of the given size, as
  (speedometer, tachometer, fuel gauge), and the two radii.
\<close>

definition speedometer_radius :: real where "speedometer_radius = 150"
definition small_gauge_radius :: real where "small_gauge_radius = 80"

definition layout :: "mjrRect \<Rightarrow> (real \<times> real) \<times> (real \<times> real) \<times> (real \<times> real)" where
  "layout rect =
     (let w = real_of_int (width rect);
          h = real_of_int (height rect);
          center_x = w / 2;
          center_y = h / 2 - 100;
          speedometer_x = center_x;
          speedometer_y = center_y;
          tachometer_x = center_x - speedometer_radius - small_gauge_radius - 20;
          tachometer_y = center_y;
          fuel_gauge_x = center_x + speedometer_radius + small_gauge_radius + 20;
          fuel_gauge_y = center_y
      in ((speedometer_x, speedometer_y), (tachometer_x, tachometer_y),
          (fuel_gauge_x, fuel_gauge_y)))"

text \<open>Lines 199 to 209: create the gauges, or move the ones that exist.\<close>

definition place_gauges :: "mjrContext_ptr \<Rightarrow> mjrRect \<Rightarrow> world \<Rightarrow> world option" where
  "place_gauges mjr_context rect w =
     (case layout rect of ((sx, sy), (tx, ty), (fx, fy)) \<Rightarrow>
        if speedometer_m (dash w) = None then
          (let (ps, h1) = new_obj (SpeedometerObj
                 (Speedometer_ctor sx sy speedometer_radius speedometer_radius mjr_context))
                 (heap w);
               (pt, h2) = new_obj (TachometerObj
                 (Tachometer_ctor tx ty small_gauge_radius small_gauge_radius mjr_context)) h1;
               (pf, h3) = new_obj (FuelGaugeObj
                 (FuelGauge_ctor fx fy small_gauge_radius small_gauge_radius mjr_context)) h2
           in Some (w\<lparr>dash := (dash w)\<lparr>speedometer_m := Some ps, tachometer_m := Some pt,
                                        fuel_gauge_m := Some pf\<rparr>,
                      heap := h3\<rparr>))
        else
          do {
            h1 \<leftarrow> on_Speedometer (UpdatePosition sx sy) (speedometer_m (dash w)) (heap w);
            h2 \<leftarrow> on_Tachometer (UpdatePosition tx ty) (tachometer_m (dash w)) h1;
            h3 \<leftarrow> on_FuelGauge (UpdatePosition fx fy) (fuel_gauge_m (dash w)) h2;
            Some (w\<lparr>heap := h3\<rparr>)
          })"

text \<open>
  A call \<^verbatim>\<open>p->render()\<close>: the object is read and the host calls it makes go to the
  screen. Nothing else of the state is written.
\<close>

definition Speedometer_render_at :: "nat option \<Rightarrow> world \<Rightarrow> world option" where
  "Speedometer_render_at p w =
     do { s \<leftarrow> deref_Speedometer p (heap w);
          Some (w\<lparr>screen := screen w @ Speedometer_render s\<rparr>) }"

definition Tachometer_render_at :: "nat option \<Rightarrow> world \<Rightarrow> world option" where
  "Tachometer_render_at p w =
     do { t \<leftarrow> deref_Tachometer p (heap w);
          Some (w\<lparr>screen := screen w @ Tachometer_render t\<rparr>) }"

definition FuelGauge_render_at :: "nat option \<Rightarrow> world \<Rightarrow> world option" where
  "FuelGauge_render_at p w =
     do { f \<leftarrow> deref_FuelGauge p (heap w);
          Some (w\<lparr>screen := screen w @ FuelGauge_render f\<rparr>) }"

text \<open>Lines 211 to 214: the three \<^verbatim>\<open>render()\<close> calls, in this order.\<close>

definition render_gauges :: "world \<Rightarrow> world option" where
  "render_gauges w =
     do {
       w1 \<leftarrow> Speedometer_render_at (speedometer_m (dash w)) w;
       w2 \<leftarrow> Tachometer_render_at (tachometer_m (dash w1)) w1;
       FuelGauge_render_at (fuel_gauge_m (dash w2)) w2
     }"

definition Render ::
  "mjModel option \<Rightarrow> mjData option \<Rightarrow> mjrContext_ptr \<Rightarrow> mjrRect option \<Rightarrow> world
   \<Rightarrow> world option" where
  "Render model data mjr_context rect w =
     do {
       w1 \<leftarrow> UpdateData model data w;
       let w2 = w1\<lparr>dash := (dash w1)\<lparr>dash_mjr_context_m := mjr_context\<rparr>\<rparr>;
       r \<leftarrow> rect;
       w3 \<leftarrow> place_gauges mjr_context r w2;
       render_gauges w3
     }"

text \<open>
  The states of a dashboard: what the constructor makes, and what a returning call of
  one of its two public operations makes of a state.
\<close>

inductive reachable :: "world \<Rightarrow> bool" where
  ctor: "reachable Dashboard_ctor"
| update: "reachable w \<Longrightarrow> UpdateData model data w = Some w' \<Longrightarrow> reachable w'"
| render: "reachable w \<Longrightarrow> Render model data mjr_context rect w = Some w' \<Longrightarrow> reachable w'"

section \<open>Notions used in the properties\<close>

text \<open>
  The simulation state that \<^verbatim>\<open>UpdateData\<close> needs is there: \<open>data\<close> is not null and has
  the three velocity coordinates \<^verbatim>\<open>qvel[0]\<close>, \<^verbatim>\<open>qvel[1]\<close>, \<^verbatim>\<open>qvel[2]\<close>.
\<close>

definition available :: "mjData option \<Rightarrow> bool" where
  "available data \<longleftrightarrow> (case data of None \<Rightarrow> False | Some d \<Rightarrow> 3 \<le> length (qvel d))"

definition velocity :: "mjData option \<Rightarrow> real \<times> real \<times> real" where
  "velocity data =
     (case data of None \<Rightarrow> (0, 0, 0) | Some d \<Rightarrow> (qvel d ! 0, qvel d ! 1, qvel d ! 2))"

text \<open>The two shapes of a dashboard's heap: before and after the first \<^verbatim>\<open>Render\<close>.\<close>

definition gauges_absent :: "world \<Rightarrow> bool" where
  "gauges_absent w \<longleftrightarrow>
     speedometer_m (dash w) = None \<and> tachometer_m (dash w) = None
     \<and> fuel_gauge_m (dash w) = None \<and> heap w = []"

definition gauges_present :: "world \<Rightarrow> bool" where
  "gauges_present w \<longleftrightarrow>
     speedometer_m (dash w) = Some 0 \<and> tachometer_m (dash w) = Some 1
     \<and> fuel_gauge_m (dash w) = Some 2
     \<and> (case heap w of
          [SpeedometerObj s, TachometerObj t, FuelGaugeObj f] \<Rightarrow> True
        | _ \<Rightarrow> False)"

text \<open>Calling an operation \<open>n\<close> times in a row.\<close>

fun repeat_call :: "nat \<Rightarrow> (world \<Rightarrow> world option) \<Rightarrow> world \<Rightarrow> world option" where
  "repeat_call 0 f w = Some w"
| "repeat_call (Suc n) f w = do { w' \<leftarrow> f w; repeat_call n f w' }"

text \<open>The strings of the \<^verbatim>\<open>mjr_text\<close> calls of a drawing, in order.\<close>

fun labels :: "draw list \<Rightarrow> string list" where
  "labels [] = []"
| "labels (mjr_rectangle rect r g b a # ds) = labels ds"
| "labels (mjr_text font txt con x y r g b # ds) = txt # labels ds"

text \<open>
  The two host calls of a scale mark, as the loop of each scale makes them: the 3 by 3
  white mark at distance \<open>radius - 10\<close> from the centre, and a white label at a given
  distance.
\<close>

definition tick :: "real \<Rightarrow> real \<Rightarrow> real \<Rightarrow> real \<Rightarrow> draw" where
  "tick center_x center_y radius angle =
     mjr_rectangle
       \<lparr>left = static_cast_int (center_x + (radius - 10) * cos angle - 1),
        bottom = static_cast_int (center_y + (radius - 10) * sin angle - 1),
        width = 3, height = 3\<rparr> 1 1 1 1"

definition label_at :: "string \<Rightarrow> mjrContext_ptr \<Rightarrow> real \<Rightarrow> real \<Rightarrow> real \<Rightarrow> real \<Rightarrow> draw" where
  "label_at txt con center_x center_y label_radius angle =
     mjr_text 0 txt con (center_x + label_radius * cos angle)
       (center_y + label_radius * sin angle) 1 1 1"

text \<open>
  Example inputs: a car at rest, a frame of 800 by 600 pixels and one of 1000 by 800, and
  the states of a dashboard after it has rendered, with no context, first into the one
  and then into the other.
\<close>

definition at_rest :: "mjData option" where
  "at_rest = Some \<lparr>qvel = [0, 0, 0]\<rparr>"

definition frame_800_600 :: "mjrRect option" where
  "frame_800_600 = Some \<lparr>left = 0, bottom = 0, width = 800, height = 600\<rparr>"

definition frame_1000_800 :: "mjrRect option" where
  "frame_1000_800 = Some \<lparr>left = 0, bottom = 0, width = 1000, height = 800\<rparr>"

definition after_first_frame :: world where
  "after_first_frame =
     \<lparr>dash = \<lparr>data_m = \<lparr>speed = 0, rpm = 0, fuel_level = 99.999\<rparr>,
              dash_mjr_context_m = None,
              speedometer_m = Some 0, tachometer_m = Some 1, fuel_gauge_m = Some 2\<rparr>,
      heap = [SpeedometerObj
                \<lparr>x_m = 400, y_m = 200, width_m = 150, height_m = 150,
                 mjr_context_m = None, speed_m = 0\<rparr>,
              TachometerObj
                \<lparr>x_m = 150, y_m = 200, width_m = 80, height_m = 80,
                 mjr_context_m = None, rpm_m = 0\<rparr>,
              FuelGaugeObj
                \<lparr>x_m = 650, y_m = 200, width_m = 80, height_m = 80,
                 mjr_context_m = None, fuel_level_m = 0\<rparr>],
      screen = []\<rparr>"

definition after_second_frame :: world where
  "after_second_frame =
     \<lparr>dash = \<lparr>data_m = \<lparr>speed = 0, rpm = 0, fuel_level = 99.998\<rparr>,
              dash_mjr_context_m = None,
              speedometer_m = Some 0, tachometer_m = Some 1, fuel_gauge_m = Some 2\<rparr>,
      heap = [SpeedometerObj
                \<lparr>x_m = 500, y_m = 300, width_m = 150, height_m = 150,
                 mjr_context_m = None, speed_m = 0\<rparr>,
              TachometerObj
                \<lparr>x_m = 250, y_m = 300, width_m = 80, height_m = 80,
                 mjr_context_m = None, rpm_m = 0\<rparr>,
              FuelGaugeObj
                \<lparr>x_m = 750, y_m = 300, width_m = 80, height_m = 80,
                 mjr_context_m = None, fuel_level_m = 99.998\<rparr>],
      screen = []\<rparr>"

text \<open>Three gauges with a context and stored values, nothing drawn yet.\<close>

definition drawn_gauges :: world where
  "drawn_gauges =
     \<lparr>dash = dash after_first_frame,
      heap = [SpeedometerObj (Speedometer_update 90 (Speedometer_ctor 400 200 150 150 (Some 0))),
              TachometerObj (Tachometer_update 5000 (Tachometer_ctor 150 200 80 80 (Some 0))),
              FuelGaugeObj (FuelGauge_update 40 (FuelGauge_ctor 650 200 80 80 (Some 0)))],
      screen = []\<rparr>"

text \<open>A sequence of calls of the telemetry sampler, each with its own arguments.\<close>

fun UpdateData_calls :: "(mjModel option \<times> mjData option) list \<Rightarrow> world \<Rightarrow> world option" where
  "UpdateData_calls [] w = Some w"
| "UpdateData_calls ((model, data) # cs) w =
     do { w' \<leftarrow> UpdateData model data w; UpdateData_calls cs w' }"

text \<open>
  The scale marks of a drawing: its 3 by 3 white rectangles, in order. No other part of a
  gauge is drawn with such a rectangle.
\<close>

fun is_tick :: "draw \<Rightarrow> bool" where
  "is_tick (mjr_rectangle rect r g b a) =
     (width rect = 3 \<and> height rect = 3 \<and> r = 1 \<and> g = 1 \<and> b = 1 \<and> a = 1)"
| "is_tick (mjr_text font txt con x y r g b) = False"

definition ticks :: "draw list \<Rightarrow> draw list" where
  "ticks ds = filter is_tick ds"

text \<open>The screen positions of the \<^verbatim>\<open>mjr_text\<close> calls of a drawing, in order.\<close>

fun text_positions :: "draw list \<Rightarrow> (real \<times> real) list" where
  "text_positions [] = []"
| "text_positions (mjr_rectangle rect r g b a # ds) = text_positions ds"
| "text_positions (mjr_text font txt con x y r g b # ds) = (x, y) # text_positions ds"

text \<open>The position of a label at a given distance from the centre, at a given angle.\<close>

definition label_position :: "real \<Rightarrow> real \<Rightarrow> real \<Rightarrow> real \<Rightarrow> real \<times> real" where
  "label_position center_x center_y label_radius angle =
     (center_x + label_radius * cos angle, center_y + label_radius * sin angle)"

section \<open>What the operations compute\<close>

lemma sample_speed: "speed (sample v D) = mju_norm3 v * 3.6"
  by (simp add: sample_def Let_def)

lemma sample_rpm: "rpm (sample v D) = min (max (speed (sample v D) * 100) 0) 8000"
  by (simp add: sample_def Let_def)

lemma sample_fuel: "fuel_level (sample v D) = max 0 (fuel_level D - 0.001)"
  by (simp add: sample_def Let_def)

lemma gauges_presentE:
  assumes "gauges_present w"
  obtains s t f where "speedometer_m (dash w) = Some 0" "tachometer_m (dash w) = Some 1"
    "fuel_gauge_m (dash w) = Some 2" "heap w = [SpeedometerObj s, TachometerObj t, FuelGaugeObj f]"
  using assms
  by (auto simp: gauges_present_def split: list.splits obj.splits)

lemma push_values_absent:
  "speedometer_m d = None \<Longrightarrow> tachometer_m d = None \<Longrightarrow> fuel_gauge_m d = None
   \<Longrightarrow> push_values d h = Some h"
  by (simp add: push_values_def)

lemma push_values_present:
  "speedometer_m d = Some 0 \<Longrightarrow> tachometer_m d = Some 1 \<Longrightarrow> fuel_gauge_m d = Some 2
   \<Longrightarrow> push_values d [SpeedometerObj s, TachometerObj t, FuelGaugeObj f]
       = Some [SpeedometerObj (s\<lparr>speed_m := speed (data_m d)\<rparr>),
               TachometerObj (t\<lparr>rpm_m := rpm (data_m d)\<rparr>),
               FuelGaugeObj (f\<lparr>fuel_level_m := fuel_level (data_m d)\<rparr>)]"
  by (simp add: push_values_def on_Speedometer_def on_Tachometer_def on_FuelGauge_def
      deref_Speedometer_def deref_Tachometer_def deref_FuelGauge_def
      Speedometer_update_def Tachometer_update_def FuelGauge_update_def)

lemma place_gauges_absent:
  "speedometer_m (dash w) = None \<Longrightarrow> heap w = [] \<Longrightarrow> layout r = ((sx, sy), (tx, ty), (fx, fy)) \<Longrightarrow>
   place_gauges c r w =
     Some (w\<lparr>dash := (dash w)\<lparr>speedometer_m := Some 0, tachometer_m := Some 1,
                                fuel_gauge_m := Some 2\<rparr>,
             heap := [SpeedometerObj (Speedometer_ctor sx sy speedometer_radius speedometer_radius c),
                      TachometerObj (Tachometer_ctor tx ty small_gauge_radius small_gauge_radius c),
                      FuelGaugeObj (FuelGauge_ctor fx fy small_gauge_radius small_gauge_radius c)]\<rparr>)"
  by (simp add: place_gauges_def new_obj_def)

lemma place_gauges_present:
  "speedometer_m (dash w) = Some 0 \<Longrightarrow> tachometer_m (dash w) = Some 1
   \<Longrightarrow> fuel_gauge_m (dash w) = Some 2
   \<Longrightarrow> heap w = [SpeedometerObj s, TachometerObj t, FuelGaugeObj f]
   \<Longrightarrow> layout r = ((sx, sy), (tx, ty), (fx, fy)) \<Longrightarrow>
   place_gauges c r w =
     Some (w\<lparr>heap := [SpeedometerObj (s\<lparr>x_m := sx, y_m := sy\<rparr>),
                      TachometerObj (t\<lparr>x_m := tx, y_m := ty\<rparr>),
                      FuelGaugeObj (f\<lparr>x_m := fx, y_m := fy\<rparr>)]\<rparr>)"
  by (simp add: place_gauges_def on_Speedometer_def on_Tachometer_def on_FuelGauge_def
      deref_Speedometer_def deref_Tachometer_def deref_FuelGauge_def UpdatePosition_def)

lemma render_gauges_present:
  "speedometer_m (dash w) = Some 0 \<Longrightarrow> tachometer_m (dash w) = Some 1
   \<Longrightarrow> fuel_gauge_m (dash w) = Some 2
   \<Longrightarrow> heap w = [SpeedometerObj s, TachometerObj t, FuelGaugeObj f] \<Longrightarrow>
   render_gauges w =
     Some (w\<lparr>screen := screen w @ Speedometer_render s @ Tachometer_render t
                          @ FuelGauge_render f\<rparr>)"
  by (simp add: render_gauges_def Speedometer_render_at_def Tachometer_render_at_def
      FuelGauge_render_at_def deref_Speedometer_def deref_Tachometer_def deref_FuelGauge_def)

lemma UpdateData_unavailable: "\<not> available data \<Longrightarrow> UpdateData model data w = None"
  by (auto simp: UpdateData_def available_def read_qvel_def split: option.splits bind_splits)

lemma UpdateData_eq:
  "available data \<Longrightarrow>
   UpdateData model data w =
     do { h \<leftarrow> push_values ((dash w)\<lparr>data_m := sample (velocity data) (data_m (dash w))\<rparr>) (heap w);
          Some (w\<lparr>dash := (dash w)\<lparr>data_m := sample (velocity data) (data_m (dash w))\<rparr>, heap := h\<rparr>) }"
  by (auto simp: UpdateData_def available_def velocity_def read_qvel_def Let_def split: option.splits)

lemma UpdateData_absent:
  "available data \<Longrightarrow> gauges_absent w \<Longrightarrow>
   UpdateData model data w =
     Some (w\<lparr>dash := (dash w)\<lparr>data_m := sample (velocity data) (data_m (dash w))\<rparr>\<rparr>)"
  by (simp add: UpdateData_eq gauges_absent_def push_values_absent)

lemma UpdateData_present:
  "available data \<Longrightarrow> speedometer_m (dash w) = Some 0 \<Longrightarrow> tachometer_m (dash w) = Some 1
   \<Longrightarrow> fuel_gauge_m (dash w) = Some 2
   \<Longrightarrow> heap w = [SpeedometerObj s, TachometerObj t, FuelGaugeObj f] \<Longrightarrow>
   UpdateData model data w =
     Some (w\<lparr>dash := (dash w)\<lparr>data_m := sample (velocity data) (data_m (dash w))\<rparr>,
             heap := [SpeedometerObj (s\<lparr>speed_m := speed (sample (velocity data) (data_m (dash w)))\<rparr>),
                      TachometerObj (t\<lparr>rpm_m := rpm (sample (velocity data) (data_m (dash w)))\<rparr>),
                      FuelGaugeObj (f\<lparr>fuel_level_m := fuel_level (sample (velocity data) (data_m (dash w)))\<rparr>)]\<rparr>)"
  by (simp add: UpdateData_eq push_values_present)

lemma UpdateData_inv:
  assumes "UpdateData model data w = Some w'"
  shows "gauges_absent w \<Longrightarrow> gauges_absent w'" and "gauges_present w \<Longrightarrow> gauges_present w'"
proof -
  have av: "available data"
    using assms UpdateData_unavailable by fastforce
  show "gauges_absent w \<Longrightarrow> gauges_absent w'"
    using assms av by (auto simp: UpdateData_absent gauges_absent_def)
  show "gauges_present w'" if "gauges_present w"
    using that
  proof (rule gauges_presentE)
    fix s t f
    assume h: "speedometer_m (dash w) = Some 0" "tachometer_m (dash w) = Some 1"
      "fuel_gauge_m (dash w) = Some 2" "heap w = [SpeedometerObj s, TachometerObj t, FuelGaugeObj f]"
    show ?thesis
      using assms h(1-3) unfolding UpdateData_present [OF av h]
      by (auto simp: gauges_present_def)
  qed
qed

lemma Render_unavailable: "\<not> available data \<Longrightarrow> Render model data c rect w = None"
  by (simp add: Render_def UpdateData_unavailable)

lemma Render_no_rect: "Render model data c None w = None"
  by (simp add: Render_def split: bind_splits)

lemma Render_absent:
  assumes "available data" "gauges_absent w" "layout r = ((sx, sy), (tx, ty), (fx, fy))"
  shows "Render model data c (Some r) w =
     Some (w\<lparr>dash := (dash w)\<lparr>data_m := sample (velocity data) (data_m (dash w)),
                                dash_mjr_context_m := c,
                                speedometer_m := Some 0, tachometer_m := Some 1,
                                fuel_gauge_m := Some 2\<rparr>,
             heap := [SpeedometerObj (Speedometer_ctor sx sy speedometer_radius speedometer_radius c),
                      TachometerObj (Tachometer_ctor tx ty small_gauge_radius small_gauge_radius c),
                      FuelGaugeObj (FuelGauge_ctor fx fy small_gauge_radius small_gauge_radius c)],
             screen := screen w
               @ Speedometer_render (Speedometer_ctor sx sy speedometer_radius speedometer_radius c)
               @ Tachometer_render (Tachometer_ctor tx ty small_gauge_radius small_gauge_radius c)
               @ FuelGauge_render (FuelGauge_ctor fx fy small_gauge_radius small_gauge_radius c)\<rparr>)"
  using assms(2)
  by (simp add: Render_def UpdateData_absent [OF assms(1,2)] gauges_absent_def
      place_gauges_absent [OF _ _ assms(3)] render_gauges_present)

lemma Render_present:
  assumes "available data" "speedometer_m (dash w) = Some 0" "tachometer_m (dash w) = Some 1"
    "fuel_gauge_m (dash w) = Some 2"
    "heap w = [SpeedometerObj s, TachometerObj t, FuelGaugeObj f]"
    "layout r = ((sx, sy), (tx, ty), (fx, fy))"
  shows "Render model data c (Some r) w =
     Some (w\<lparr>dash := (dash w)\<lparr>data_m := sample (velocity data) (data_m (dash w)),
                                dash_mjr_context_m := c\<rparr>,
             heap := [SpeedometerObj (s\<lparr>speed_m := speed (sample (velocity data) (data_m (dash w))), x_m := sx, y_m := sy\<rparr>),
                      TachometerObj (t\<lparr>rpm_m := rpm (sample (velocity data) (data_m (dash w))), x_m := tx, y_m := ty\<rparr>),
                      FuelGaugeObj (f\<lparr>fuel_level_m := fuel_level (sample (velocity data) (data_m (dash w))), x_m := fx, y_m := fy\<rparr>)],
             screen := screen w
               @ Speedometer_render (s\<lparr>speed_m := speed (sample (velocity data) (data_m (dash w))), x_m := sx, y_m := sy\<rparr>)
               @ Tachometer_render (t\<lparr>rpm_m := rpm (sample (velocity data) (data_m (dash w))), x_m := tx, y_m := ty\<rparr>)
               @ FuelGauge_render (f\<lparr>fuel_level_m := fuel_level (sample (velocity data) (data_m (dash w))), x_m := fx, y_m := fy\<rparr>)\<rparr>)"
  by (simp add: Render_def UpdateData_present [OF assms(1-5)] assms(2-4)
      place_gauges_present [OF _ _ _ _ assms(6)] render_gauges_present)

lemma Render_inv:
  assumes "Render model data c rect w = Some w'" "gauges_absent w \<or> gauges_present w"
  shows "gauges_present w'"
proof -
  have av: "available data"
    using assms(1) Render_unavailable by fastforce
  obtain r where r: "rect = Some r"
    using assms(1) Render_no_rect by (cases rect) auto
  obtain sx sy tx ty fx fy where l: "layout r = ((sx, sy), (tx, ty), (fx, fy))"
    by (metis prod.exhaust)
  from assms(2) show ?thesis
  proof
    assume "gauges_absent w"
    then show ?thesis
      using assms(1) unfolding r Render_absent [OF av \<open>gauges_absent w\<close> l]
      by (auto simp: gauges_present_def)
  next
    assume "gauges_present w"
    then show ?thesis
    proof (rule gauges_presentE)
      fix s t f
      assume h: "speedometer_m (dash w) = Some 0" "tachometer_m (dash w) = Some 1"
        "fuel_gauge_m (dash w) = Some 2" "heap w = [SpeedometerObj s, TachometerObj t, FuelGaugeObj f]"
      show ?thesis
        using assms(1) h(1-3) unfolding r Render_present [OF av h l]
        by (auto simp: gauges_present_def)
    qed
  qed
qed

lemma reachable_gauges: "reachable w \<Longrightarrow> gauges_absent w \<or> gauges_present w"
proof (induction rule: reachable.induct)
  case ctor
  then show ?case by (simp add: gauges_absent_def Dashboard_ctor_def)
next
  case (update w model data w')
  then show ?case using UpdateData_inv by blast
next
  case (render w model data mjr_context rect w')
  then show ?case using Render_inv by blast
qed

lemma Render_data_m:
  assumes "Render model data c rect w = Some w'"
  shows "data_m (dash w') = sample (velocity data) (data_m (dash w))"
proof -
  have av: "available data"
    using assms Render_unavailable by fastforce
  show ?thesis
    using assms
    by (auto simp: Render_def UpdateData_eq [OF av] place_gauges_def render_gauges_def
        Speedometer_render_at_def Tachometer_render_at_def FuelGauge_render_at_def
        new_obj_def Let_def split: bind_splits prod.splits if_splits)
qed

lemma UpdateData_data_m:
  assumes "UpdateData model data w = Some w'"
  shows "data_m (dash w') = sample (velocity data) (data_m (dash w))"
proof -
  have av: "available data"
    using assms UpdateData_unavailable by fastforce
  show ?thesis
    using assms by (auto simp: UpdateData_eq [OF av] split: bind_splits)
qed

lemma reachable_fuel:
  "reachable w \<Longrightarrow> 0 \<le> fuel_level (data_m (dash w)) \<and> fuel_level (data_m (dash w)) \<le> 100"
proof (induction rule: reachable.induct)
  case ctor
  then show ?case by (simp add: Dashboard_ctor_def)
next
  case (update w model data w')
  then show ?case by (auto simp: UpdateData_data_m sample_fuel)
next
  case (render w model data mjr_context rect w')
  then show ?case by (auto simp: Render_data_m sample_fuel)
qed

lemma reachable_UpdateData_returns:
  assumes "reachable w" and "available data"
  shows "\<exists>w'. UpdateData model data w = Some w'"
  using reachable_gauges [OF assms(1)]
proof
  assume "gauges_absent w"
  then show ?thesis
    by (simp add: UpdateData_absent [OF assms(2)])
next
  assume "gauges_present w"
  then show ?thesis
    by (rule gauges_presentE) (simp add: UpdateData_present [OF assms(2)])
qed

lemma speed_angle_eq: "speed_angle c = - pi / 2 + pi * (c / 240)"
  by (simp add: speed_angle_def start_angle_def end_angle_def M_PI_def max_speed_def)

lemma rpm_angle_eq: "rpm_angle c = - pi / 2 + pi * (c / 8000)"
  by (simp add: rpm_angle_def start_angle_def end_angle_def M_PI_def max_rpm_def)

lemma fuel_angle_eq: "fuel_angle c = - pi / 2 + pi * (c / 100)"
  by (simp add: fuel_angle_def fuel_start_angle_def fuel_end_angle_def M_PI_def algebra_simps)

lemma Speedometer_clamp_mono: "v \<le> u \<Longrightarrow> Speedometer_clamp v \<le> Speedometer_clamp u"
  by (simp add: Speedometer_clamp_def min_speed_def max_speed_def)

lemma Tachometer_clamp_mono: "v \<le> u \<Longrightarrow> Tachometer_clamp v \<le> Tachometer_clamp u"
  by (simp add: Tachometer_clamp_def min_rpm_def max_rpm_def)

lemma FuelGauge_clamp_mono: "v \<le> u \<Longrightarrow> FuelGauge_clamp v \<le> FuelGauge_clamp u"
  by (simp add: FuelGauge_clamp_def)

lemma Speedometer_arcs_cases:
  "Speedometer_arcs (Speedometer_clamp v) =
     (if v < 80 then [(- pi / 2, speed_angle (Speedometer_clamp v), green)]
      else if v < 160 then
        [(- pi / 2, speed_angle 80, green), (speed_angle 80, speed_angle v, yellow)]
      else
        [(- pi / 2, speed_angle 80, green), (speed_angle 80, speed_angle 160, yellow),
         (speed_angle 160, speed_angle (Speedometer_clamp v), red)])"
  by (simp add: Speedometer_arcs_def Speedometer_clamp_def min_speed_def max_speed_def
      speed_angle_def start_angle_def end_angle_def M_PI_def)

lemma Tachometer_arcs_cases:
  "Tachometer_arcs (Tachometer_clamp v) =
     (if v < 4000 then [(- pi / 2, rpm_angle (Tachometer_clamp v), green)]
      else if v < 6000 then
        [(- pi / 2, rpm_angle 4000, green), (rpm_angle 4000, rpm_angle v, yellow)]
      else
        [(- pi / 2, rpm_angle 4000, green), (rpm_angle 4000, rpm_angle 6000, yellow),
         (rpm_angle 6000, rpm_angle (Tachometer_clamp v), red)])"
  by (simp add: Tachometer_arcs_def Tachometer_clamp_def min_rpm_def max_rpm_def
      rpm_angle_def start_angle_def end_angle_def M_PI_def)

lemma mid_angle_eq: "mid_angle = fuel_angle 75"
  by (simp add: mid_angle_def fuel_angle_def)

lemma low_angle_eq: "low_angle = fuel_angle 25"
  by (simp add: low_angle_def fuel_angle_def)

lemma fuel_end_angle_eq: "fuel_end_angle = fuel_angle 0"
  by (simp add: fuel_angle_def)

lemma FuelGauge_arcs_cases:
  "FuelGauge_arcs (FuelGauge_clamp v) =
     (if 75 < v then [(fuel_angle (FuelGauge_clamp v), fuel_angle 0, green)]
      else if 25 < v then
        [(fuel_angle v, fuel_angle 75, yellow), (fuel_angle 75, fuel_angle 0, green)]
      else
        [(fuel_angle (FuelGauge_clamp v), fuel_angle 25, red),
         (fuel_angle 25, fuel_angle 75, yellow), (fuel_angle 75, fuel_angle 0, green)])"
  by (simp add: FuelGauge_arcs_def FuelGauge_clamp_def mid_angle_eq low_angle_eq
      fuel_end_angle_eq)

lemma Speedometer_render_at_repeat:
  "deref_Speedometer p (heap w) = Some s \<Longrightarrow>
   repeat_call n (Speedometer_render_at p) w
     = Some (w\<lparr>screen := screen w @ concat (replicate n (Speedometer_render s))\<rparr>)"
proof (induction n arbitrary: w)
  case 0
  then show ?case by simp
next
  case (Suc n)
  have "deref_Speedometer p (heap (w\<lparr>screen := screen w @ Speedometer_render s\<rparr>)) = Some s"
    using Suc.prems by simp
  from Suc.IH [OF this] show ?case
    using Suc.prems by (simp add: Speedometer_render_at_def)
qed

lemma Tachometer_render_at_repeat:
  "deref_Tachometer p (heap w) = Some s \<Longrightarrow>
   repeat_call n (Tachometer_render_at p) w
     = Some (w\<lparr>screen := screen w @ concat (replicate n (Tachometer_render s))\<rparr>)"
proof (induction n arbitrary: w)
  case 0
  then show ?case by simp
next
  case (Suc n)
  have "deref_Tachometer p (heap (w\<lparr>screen := screen w @ Tachometer_render s\<rparr>)) = Some s"
    using Suc.prems by simp
  from Suc.IH [OF this] show ?case
    using Suc.prems by (simp add: Tachometer_render_at_def)
qed

lemma FuelGauge_render_at_repeat:
  "deref_FuelGauge p (heap w) = Some s \<Longrightarrow>
   repeat_call n (FuelGauge_render_at p) w
     = Some (w\<lparr>screen := screen w @ concat (replicate n (FuelGauge_render s))\<rparr>)"
proof (induction n arbitrary: w)
  case 0
  then show ?case by simp
next
  case (Suc n)
  have "deref_FuelGauge p (heap (w\<lparr>screen := screen w @ FuelGauge_render s\<rparr>)) = Some s"
    using Suc.prems by simp
  from Suc.IH [OF this] show ?case
    using Suc.prems by (simp add: FuelGauge_render_at_def)
qed

lemma layout_800_600:
  "layout \<lparr>left = 0, bottom = 0, width = 800, height = 600\<rparr>
     = ((400, 200), (150, 200), (650, 200))"
  by (simp add: layout_def speedometer_radius_def small_gauge_radius_def)

lemma layout_1000_800:
  "layout \<lparr>left = 0, bottom = 0, width = 1000, height = 800\<rparr>
     = ((500, 300), (250, 300), (750, 300))"
  by (simp add: layout_def speedometer_radius_def small_gauge_radius_def)

lemma available_zero: "available (Some \<lparr>qvel = [0, 0, 0]\<rparr>)"
  by (simp add: available_def)

lemma sample_zero:
  "sample (velocity (Some \<lparr>qvel = [0, 0, 0]\<rparr>)) D = \<lparr>speed = 0, rpm = 0, fuel_level = max 0 (fuel_level D - 0.001)\<rparr>"
  by (simp add: sample_def velocity_def mju_norm3_def Let_def max_def)

lemma gauges_absent_ctor: "gauges_absent Dashboard_ctor"
  by (simp add: gauges_absent_def Dashboard_ctor_def)

lemma render_None [simp]:
  "mjr_context_m s = None \<Longrightarrow> Speedometer_render s = []"
  "mjr_context_m t = None \<Longrightarrow> Tachometer_render t = []"
  "mjr_context_m f = None \<Longrightarrow> FuelGauge_render f = []"
  by (simp_all add: Speedometer_render_def Tachometer_render_def FuelGauge_render_def)

lemma snprintf_0f_0: "snprintf_0f 0 = ''0''"
  by (simp add: snprintf_0f_def round_half_even_def show_int_def show_nat.simps)

lemma FuelGauge_render_readout:
  "mjr_context_m f \<noteq> None \<Longrightarrow>
   mjr_text 0 (snprintf_0f (FuelGauge_clamp (fuel_level_m f))) (mjr_context_m f)
     (x_m f) (y_m f + 5) 1 1 1 \<in> set (FuelGauge_render f)"
  by (simp add: FuelGauge_render_def Let_def)

lemma FuelGauge_render_last:
  "mjr_context_m s \<noteq> None \<Longrightarrow>
   FuelGauge_render s \<noteq> []
   \<and> last (FuelGauge_render s)
       = mjr_text 0 ''FUEL'' (mjr_context_m s) (x_m s) (y_m s - width_m s - 10) 1 1 1"
  by (simp add: FuelGauge_render_def Let_def)

lemma Speedometer_mark_angle_eq: "Speedometer_mark_angle i = - pi / 2 + pi * real i / 12"
  by (simp add: Speedometer_mark_angle_def Speedometer_num_marks_def start_angle_def
      end_angle_def M_PI_def)

lemma Tachometer_mark_angle_eq: "Tachometer_mark_angle i = - pi / 2 + pi * real i / 8"
  by (simp add: Tachometer_mark_angle_def Tachometer_num_marks_def start_angle_def
      end_angle_def M_PI_def)

lemma FuelGauge_mark_angle_eq: "FuelGauge_mark_angle i = pi / 2 - pi * real i / 10"
  by (simp add: FuelGauge_mark_angle_def FuelGauge_num_marks_def fuel_start_angle_def
      fuel_end_angle_def M_PI_def)

lemma static_cast_int_of_nat: "static_cast_int (real n) = int n"
  by (simp add: static_cast_int_def)

lemma speed_value_eq:
  "static_cast_int (min_speed + (max_speed - min_speed) * real i
                      / real (Speedometer_num_marks - 1)) = 20 * int i"
proof -
  have "min_speed + (max_speed - min_speed) * real i / real (Speedometer_num_marks - 1)
        = real (20 * i)"
    by (simp add: min_speed_def max_speed_def Speedometer_num_marks_def)
  then show ?thesis
    by (simp only: static_cast_int_of_nat) 
qed

lemma rpm_value_eq:
  "static_cast_int (min_rpm + (max_rpm - min_rpm) * real i
                      / real (Tachometer_num_marks - 1)) = 1000 * int i"
proof -
  have "min_rpm + (max_rpm - min_rpm) * real i / real (Tachometer_num_marks - 1)
        = real (1000 * i)"
    by (simp add: min_rpm_def max_rpm_def Tachometer_num_marks_def)
  then show ?thesis
    by (simp only: static_cast_int_of_nat) 
qed

lemma Speedometer_mark_eq:
  "Speedometer_mark cx cy r c i =
     tick cx cy r (Speedometer_mark_angle i)
     # (if even i
        then [label_at (snprintf_d (20 * int i)) c cx cy (r - 30) (Speedometer_mark_angle i)]
        else [])"
  unfolding Speedometer_mark_def Let_def speed_value_eq
  by (simp add: tick_def label_at_def even_iff_mod_2_eq_zero)

lemma Tachometer_mark_eq:
  "Tachometer_mark cx cy r c i =
     [tick cx cy r (Tachometer_mark_angle i),
      label_at (snprintf_d (int i)) c cx cy (r - 25) (Tachometer_mark_angle i)]"
  unfolding Tachometer_mark_def Let_def rpm_value_eq
  by (simp add: tick_def label_at_def)

lemma FuelGauge_mark_eq:
  "FuelGauge_mark cx cy r c v i =
     tick cx cy r (FuelGauge_mark_angle i)
     # (if even i
        then [label_at (snprintf_d (static_cast_int (100 - v / 100 * real i * 10))) c cx cy
                (r - 25) (FuelGauge_mark_angle i)]
        else [])"
  by (simp add: FuelGauge_mark_def Let_def tick_def label_at_def even_iff_mod_2_eq_zero)

lemma labels_append: "labels (xs @ ys) = labels xs @ labels ys"
  by (induction xs rule: labels.induct) simp_all

lemma labels_rectangles: "labels (map (\<lambda>i. mjr_rectangle (f i) r g b a) xs) = []"
  by (induction xs) simp_all

lemma labels_concat: "labels (concat xss) = concat (map labels xss)"
  by (induction xss) (simp_all add: labels_append)

lemma labels_DrawCircle: "labels (DrawCircle cx cy rad r g b a c) = []"
  by (simp add: DrawCircle_def Let_def labels_rectangles)

lemma labels_DrawArc: "labels (DrawArc cx cy rad a0 a1 r g b a c) = []"
  by (simp add: DrawArc_def Let_def labels_rectangles)

lemma labels_DrawArcs: "labels (DrawArcs cx cy rad c arcs) = []"
  by (induction arcs) (auto simp: DrawArcs_def labels_append labels_DrawArc)

lemma labels_DrawFilledCircle_loop:
  "labels (DrawFilledCircle_loop i rings cx cy rad r g b a c) = []"
proof (induction i rings cx cy rad r g b a c rule: DrawFilledCircle_loop.induct)
  case (1 i rings cx cy rad r g b a c)
  show ?case
    by (subst DrawFilledCircle_loop.simps)
      (simp add: Let_def labels_append labels_DrawCircle "1.IH")
qed

lemma labels_DrawFilledCircle: "labels (DrawFilledCircle cx cy rad r g b a c) = []"
  by (simp add: DrawFilledCircle_def Let_def labels_DrawFilledCircle_loop)

lemma labels_Speedometer_needle: "labels (Speedometer_needle cx cy rad ang) = []"
  by (simp add: Speedometer_needle_def Let_def labels_rectangles)

lemma labels_small_needle: "labels (small_needle cx cy rad ang) = []"
  by (simp add: small_needle_def Let_def labels_rectangles)

lemma upt_13: "[0..<13] = [0, 1, 2, 3, 4, 5, 6, 7, 8, 9, 10, 11, 12 :: nat]"
  by code_simp

lemma upt_9: "[0..<9] = [0, 1, 2, 3, 4, 5, 6, 7, 8 :: nat]"
  by code_simp

lemma upt_11: "[0..<11] = [0, 1, 2, 3, 4, 5, 6, 7, 8, 9, 10 :: nat]"
  by code_simp

lemma labels_Speedometer_scale:
  "labels (concat (map (Speedometer_mark cx cy r c) [0..<Speedometer_num_marks]))
     = [''0'', ''40'', ''80'', ''120'', ''160'', ''200'', ''240'']"
  by (simp add: Speedometer_num_marks_def upt_13 Speedometer_mark_eq tick_def label_at_def
      snprintf_d_def show_int_def show_nat.simps)

lemma labels_Tachometer_mark: "labels (Tachometer_mark cx cy r c i) = [snprintf_d (int i)]"
  by (simp add: Tachometer_mark_eq tick_def label_at_def)

lemma labels_Tachometer_scale:
  "labels (concat (map (Tachometer_mark cx cy r c) xs)) = map (\<lambda>i. snprintf_d (int i)) xs"
  by (induction xs) (simp_all add: labels_append labels_Tachometer_mark)

lemma labels_Speedometer_render:
  "mjr_context_m s \<noteq> None \<Longrightarrow>
   labels (Speedometer_render s)
     = [''0'', ''40'', ''80'', ''120'', ''160'', ''200'', ''240'',
        snprintf_0f (Speedometer_clamp (speed_m s)), ''km/h'', ''SPEED'']"
  by (simp add: Speedometer_render_def Let_def labels_append labels_DrawCircle
      labels_DrawArcs labels_DrawFilledCircle labels_Speedometer_needle
      labels_Speedometer_scale)

lemma labels_Tachometer_render:
  "mjr_context_m s \<noteq> None \<Longrightarrow>
   labels (Tachometer_render s)
     = map (\<lambda>i. snprintf_d (int i)) [0..<9]
       @ [snprintf_0f (Tachometer_clamp (rpm_m s) / 1000), ''RPM'', ''TACH'']"
  by (simp add: Tachometer_render_def Let_def labels_append labels_DrawCircle
      labels_DrawArcs labels_DrawFilledCircle labels_small_needle
      labels_Tachometer_scale Tachometer_num_marks_def)

lemma labels_FuelGauge_scale_full:
  "labels (concat (map (FuelGauge_mark cx cy r c 100) [0..<FuelGauge_num_marks]))
     = [''100'', ''80'', ''60'', ''40'', ''20'', ''0'']"
  by (simp add: FuelGauge_num_marks_def upt_11 FuelGauge_mark_eq tick_def label_at_def
      snprintf_d_def show_int_def show_nat.simps static_cast_int_def)

lemma labels_FuelGauge_scale_empty:
  "labels (concat (map (FuelGauge_mark cx cy r c 0) [0..<FuelGauge_num_marks]))
     = [''100'', ''100'', ''100'', ''100'', ''100'', ''100'']"
  by (simp add: FuelGauge_num_marks_def upt_11 FuelGauge_mark_eq tick_def label_at_def
      snprintf_d_def show_int_def show_nat.simps static_cast_int_def)

lemma Render_first_frame:
  "Render None at_rest None frame_800_600 Dashboard_ctor = Some after_first_frame"
  unfolding at_rest_def frame_800_600_def
    Render_absent [OF available_zero gauges_absent_ctor layout_800_600] sample_zero
  by (simp add: Dashboard_ctor_def speedometer_radius_def small_gauge_radius_def
      Speedometer_ctor_def Tachometer_ctor_def FuelGauge_ctor_def after_first_frame_def)

lemma Render_second_frame:
  "Render None at_rest None frame_1000_800 after_first_frame = Some after_second_frame"
proof -
  have h: "speedometer_m (dash after_first_frame) = Some 0"
    "tachometer_m (dash after_first_frame) = Some 1"
    "fuel_gauge_m (dash after_first_frame) = Some 2"
    "heap after_first_frame
       = [SpeedometerObj (Speedometer_ctor 400 200 150 150 None),
          TachometerObj (Tachometer_ctor 150 200 80 80 None),
          FuelGaugeObj (FuelGauge_ctor 650 200 80 80 None)]"
    by (simp_all add: after_first_frame_def Speedometer_ctor_def Tachometer_ctor_def
        FuelGauge_ctor_def)
  show ?thesis
    unfolding at_rest_def frame_1000_800_def
      Render_present [OF available_zero h layout_1000_800] sample_zero
    by (simp add: Speedometer_ctor_def Tachometer_ctor_def FuelGauge_ctor_def
        after_first_frame_def after_second_frame_def)
qed

lemma UpdateData_calls_fuel:
  "UpdateData_calls cs w = Some w' \<Longrightarrow>
   fuel_level (data_m (dash w'))
     = max 0 (fuel_level (data_m (dash w)) - 0.001 * real (length cs))
     \<or> fuel_level (data_m (dash w)) < 0"
proof (induction cs arbitrary: w)
  case Nil
  then show ?case by auto
next
  case (Cons c cs)
  obtain model data where c: "c = (model, data)"
    by (cases c)
  from Cons.prems obtain w1 where
    s: "UpdateData model data w = Some w1" and r: "UpdateData_calls cs w1 = Some w'"
    by (auto simp: c split: bind_splits)
  have f1: "fuel_level (data_m (dash w1)) = max 0 (fuel_level (data_m (dash w)) - 0.001)"
    by (simp add: UpdateData_data_m [OF s] sample_fuel)
  then have "0 \<le> fuel_level (data_m (dash w1))"
    by simp
  with Cons.IH [OF r]
  have "fuel_level (data_m (dash w'))
     = max 0 (fuel_level (data_m (dash w1)) - 0.001 * real (length cs))"
    by simp
  then show ?case
    unfolding f1 by (simp add: max_def algebra_simps)
qed

lemma UpdateData_at_rest_ctor:
  "UpdateData None at_rest Dashboard_ctor
     = Some (Dashboard_ctor\<lparr>dash := (dash Dashboard_ctor)
               \<lparr>data_m := \<lparr>speed = 0, rpm = 0, fuel_level = 99.999\<rparr>\<rparr>\<rparr>)"
  unfolding at_rest_def UpdateData_absent [OF available_zero gauges_absent_ctor] sample_zero
  by (simp add: Dashboard_ctor_def)

lemma UpdateData_at_rest_again:
  "UpdateData None at_rest (Dashboard_ctor\<lparr>dash := (dash Dashboard_ctor)
               \<lparr>data_m := \<lparr>speed = 0, rpm = 0, fuel_level = 99.999\<rparr>\<rparr>\<rparr>)
     = Some (Dashboard_ctor\<lparr>dash := (dash Dashboard_ctor)
               \<lparr>data_m := \<lparr>speed = 0, rpm = 0, fuel_level = 99.998\<rparr>\<rparr>\<rparr>)"
proof -
  have "gauges_absent (Dashboard_ctor\<lparr>dash := (dash Dashboard_ctor)
               \<lparr>data_m := \<lparr>speed = 0, rpm = 0, fuel_level = 99.999\<rparr>\<rparr>\<rparr>)"
    by (simp add: gauges_absent_def Dashboard_ctor_def)
  from UpdateData_absent [OF available_zero this] show ?thesis
    unfolding at_rest_def sample_zero by (simp add: Dashboard_ctor_def)
qed

lemma ticks_append: "ticks (xs @ ys) = ticks xs @ ticks ys"
  by (simp add: ticks_def)

lemma ticks_Nil: "ticks [] = []"
  by (simp add: ticks_def)

lemma ticks_Cons_text: "ticks (mjr_text font txt con x y r g b # ds) = ticks ds"
  by (simp add: ticks_def)

lemma ticks_coloured:
  "\<not> (r = 1 \<and> g = 1 \<and> b = 1 \<and> a = 1) \<Longrightarrow>
   ticks (map (\<lambda>i. mjr_rectangle (f i) r g b a) xs) = []"
  by (induction xs) (auto simp: ticks_def)

lemma ticks_other_width:
  "k \<noteq> 3 \<Longrightarrow>
   ticks (map (\<lambda>i. mjr_rectangle \<lparr>left = p i, bottom = q i, width = k, height = h\<rparr> r g b a) xs)
     = []"
  by (induction xs) (auto simp: ticks_def)

lemma ticks_DrawCircle_coloured:
  "\<not> (r = 1 \<and> g = 1 \<and> b = 1 \<and> a = 1) \<Longrightarrow> ticks (DrawCircle cx cy rad r g b a c) = []"
  by (simp add: DrawCircle_def Let_def ticks_coloured)

lemma ticks_DrawCircle_narrow:
  "static_cast_int (rad * 0.05) \<noteq> 3 \<Longrightarrow> ticks (DrawCircle cx cy rad r g b a c) = []"
  by (simp add: DrawCircle_def Let_def ticks_other_width)

lemma ticks_DrawArc:
  "\<not> (r = 1 \<and> g = 1 \<and> b = 1 \<and> a = 1) \<Longrightarrow> ticks (DrawArc cx cy rad a0 a1 r g b a c) = []"
  by (simp add: DrawArc_def Let_def ticks_coloured)

lemma ticks_DrawArcs:
  "\<forall>s \<in> set arcs. arc_colour s \<in> {green, yellow, red} \<Longrightarrow>
   ticks (DrawArcs cx cy rad c arcs) = []"
proof (induction arcs)
  case Nil
  then show ?case by (simp add: DrawArcs_def ticks_def)
next
  case (Cons s arcs)
  obtain a0 a1 r g b a where s: "s = (a0, a1, r, g, b, a)"
    by (metis prod.exhaust)
  from Cons.prems have "\<not> (r = 1 \<and> g = 1 \<and> b = 1 \<and> a = 1)"
    by (auto simp: s arc_colour_def green_def yellow_def red_def)
  then have "ticks (DrawArc cx cy rad a0 a1 r g b a c) = []"
    by (rule ticks_DrawArc)
  moreover have "ticks (DrawArcs cx cy rad c arcs) = []"
    using Cons by simp
  ultimately show ?case
    by (simp add: DrawArcs_def s ticks_append)
qed

lemma arcs_colours:
  "\<forall>s \<in> set (Speedometer_arcs v). arc_colour s \<in> {green, yellow, red}"
  "\<forall>s \<in> set (Tachometer_arcs v). arc_colour s \<in> {green, yellow, red}"
  "\<forall>s \<in> set (FuelGauge_arcs v). arc_colour s \<in> {green, yellow, red}"
  by (simp_all add: Speedometer_arcs_def Tachometer_arcs_def FuelGauge_arcs_def arc_colour_def)

lemma ticks_status_arcs:
  "ticks (DrawArcs cx cy rad c (Speedometer_arcs v)) = []"
  "ticks (DrawArcs cx cy rad c (Tachometer_arcs v)) = []"
  "ticks (DrawArcs cx cy rad c (FuelGauge_arcs v)) = []"
  by (rule ticks_DrawArcs, rule arcs_colours)+

lemma ticks_DrawFilledCircle_loop:
  "\<not> (r = 1 \<and> g = 1 \<and> b = 1 \<and> a = 1) \<Longrightarrow>
   ticks (DrawFilledCircle_loop i rings cx cy rad r g b a c) = []"
proof (induction i rings cx cy rad r g b a c rule: DrawFilledCircle_loop.induct)
  case (1 i rings cx cy rad r g b a c)
  show ?case
    by (subst DrawFilledCircle_loop.simps)
      (simp add: Let_def ticks_append ticks_Nil ticks_DrawCircle_coloured "1.prems" "1.IH")
qed

lemma ticks_DrawFilledCircle:
  "\<not> (r = 1 \<and> g = 1 \<and> b = 1 \<and> a = 1) \<Longrightarrow>
   ticks (DrawFilledCircle cx cy rad r g b a c) = []"
  by (simp add: DrawFilledCircle_def Let_def ticks_DrawFilledCircle_loop)

lemma ticks_needles:
  "ticks (Speedometer_needle cx cy rad ang) = []"
  "ticks (small_needle cx cy rad ang) = []"
  by (simp_all add: Speedometer_needle_def small_needle_def Let_def ticks_coloured)

lemma ticks_mark:
  "ticks (Speedometer_mark cx cy r c i) = [tick cx cy r (Speedometer_mark_angle i)]"
  "ticks (Tachometer_mark cx cy r c i) = [tick cx cy r (Tachometer_mark_angle i)]"
  "ticks (FuelGauge_mark cx cy r c v i) = [tick cx cy r (FuelGauge_mark_angle i)]"
  by (simp_all add: Speedometer_mark_eq Tachometer_mark_eq FuelGauge_mark_eq ticks_def
      tick_def label_at_def)

lemma ticks_scale:
  "ticks (concat (map (Speedometer_mark cx cy r c) xs))
     = map (\<lambda>i. tick cx cy r (Speedometer_mark_angle i)) xs"
  "ticks (concat (map (Tachometer_mark cx cy r c) xs))
     = map (\<lambda>i. tick cx cy r (Tachometer_mark_angle i)) xs"
  "ticks (concat (map (FuelGauge_mark cx cy r c v) xs))
     = map (\<lambda>i. tick cx cy r (FuelGauge_mark_angle i)) xs"
  by (induction xs) (simp_all add: ticks_append ticks_mark ticks_Nil)

lemma hub_width: "static_cast_int (15 * 0.05) \<noteq> 3" "static_cast_int (10 * 0.05) \<noteq> 3"
  by (simp_all add: static_cast_int_def)

lemma ticks_Speedometer_render:
  "mjr_context_m s \<noteq> None \<Longrightarrow>
   ticks (Speedometer_render s)
     = map (\<lambda>i. tick (x_m s) (y_m s) (width_m s) (Speedometer_mark_angle i)) [0..<13]"
  by (simp add: Speedometer_render_def Let_def ticks_append ticks_DrawFilledCircle
      ticks_DrawCircle_coloured ticks_DrawCircle_narrow [OF hub_width(1)] ticks_status_arcs
      ticks_needles ticks_scale ticks_Cons_text ticks_Nil
      Speedometer_num_marks_def)

lemma ticks_Tachometer_render:
  "mjr_context_m s \<noteq> None \<Longrightarrow>
   ticks (Tachometer_render s)
     = map (\<lambda>i. tick (x_m s) (y_m s) (width_m s) (Tachometer_mark_angle i)) [0..<9]"
  by (simp add: Tachometer_render_def Let_def ticks_append ticks_DrawFilledCircle
      ticks_DrawCircle_coloured ticks_DrawCircle_narrow [OF hub_width(2)] ticks_status_arcs
      ticks_needles ticks_scale ticks_Cons_text ticks_Nil
      Tachometer_num_marks_def)

lemma ticks_FuelGauge_render:
  "mjr_context_m s \<noteq> None \<Longrightarrow>
   ticks (FuelGauge_render s)
     = map (\<lambda>i. tick (x_m s) (y_m s) (width_m s) (FuelGauge_mark_angle i)) [0..<11]"
  by (simp add: FuelGauge_render_def Let_def ticks_append ticks_DrawFilledCircle
      ticks_DrawCircle_coloured ticks_DrawCircle_narrow [OF hub_width(2)] ticks_status_arcs
      ticks_needles ticks_scale ticks_Cons_text ticks_Nil
      FuelGauge_num_marks_def)


lemma text_positions_append: "text_positions (xs @ ys) = text_positions xs @ text_positions ys"
  by (induction xs rule: text_positions.induct) simp_all

lemma text_positions_rectangles:
  "text_positions (map (\<lambda>i. mjr_rectangle (f i) r g b a) xs) = []"
  by (induction xs) simp_all

lemma text_positions_DrawCircle: "text_positions (DrawCircle cx cy rad r g b a c) = []"
  by (simp add: DrawCircle_def Let_def text_positions_rectangles)

lemma text_positions_DrawArc: "text_positions (DrawArc cx cy rad a0 a1 r g b a c) = []"
  by (simp add: DrawArc_def Let_def text_positions_rectangles)

lemma text_positions_DrawArcs: "text_positions (DrawArcs cx cy rad c arcs) = []"
  by (induction arcs) (auto simp: DrawArcs_def text_positions_append text_positions_DrawArc)

lemma text_positions_DrawFilledCircle_loop:
  "text_positions (DrawFilledCircle_loop i rings cx cy rad r g b a c) = []"
proof (induction i rings cx cy rad r g b a c rule: DrawFilledCircle_loop.induct)
  case (1 i rings cx cy rad r g b a c)
  show ?case
    by (subst DrawFilledCircle_loop.simps)
      (simp add: Let_def text_positions_append text_positions_DrawCircle "1.IH")
qed

lemma text_positions_DrawFilledCircle:
  "text_positions (DrawFilledCircle cx cy rad r g b a c) = []"
  by (simp add: DrawFilledCircle_def Let_def text_positions_DrawFilledCircle_loop)

lemma text_positions_needles:
  "text_positions (Speedometer_needle cx cy rad ang) = []"
  "text_positions (small_needle cx cy rad ang) = []"
  by (simp_all add: Speedometer_needle_def small_needle_def Let_def text_positions_rectangles)

lemma text_positions_mark:
  "text_positions (Speedometer_mark cx cy r c i)
     = (if even i then [label_position cx cy (r - 30) (Speedometer_mark_angle i)] else [])"
  "text_positions (Tachometer_mark cx cy r c i)
     = [label_position cx cy (r - 25) (Tachometer_mark_angle i)]"
  "text_positions (FuelGauge_mark cx cy r c v i)
     = (if even i then [label_position cx cy (r - 25) (FuelGauge_mark_angle i)] else [])"
  by (simp_all add: Speedometer_mark_eq Tachometer_mark_eq FuelGauge_mark_eq tick_def
      label_at_def label_position_def)

lemma text_positions_scale:
  "text_positions (concat (map (Speedometer_mark cx cy r c) xs))
     = map (\<lambda>i. label_position cx cy (r - 30) (Speedometer_mark_angle i)) (filter even xs)"
  "text_positions (concat (map (Tachometer_mark cx cy r c) xs))
     = map (\<lambda>i. label_position cx cy (r - 25) (Tachometer_mark_angle i)) xs"
  "text_positions (concat (map (FuelGauge_mark cx cy r c v) xs))
     = map (\<lambda>i. label_position cx cy (r - 25) (FuelGauge_mark_angle i)) (filter even xs)"
  by (induction xs) (simp_all add: text_positions_append text_positions_mark)

lemma text_positions_Speedometer_render:
  "mjr_context_m s \<noteq> None \<Longrightarrow>
   text_positions (Speedometer_render s)
     = map (\<lambda>i. label_position (x_m s) (y_m s) (width_m s - 30) (Speedometer_mark_angle i))
         (filter even [0..<13])
       @ [(x_m s, y_m s + 5), (x_m s, y_m s - 15), (x_m s, y_m s - width_m s - 10)]"
  by (simp add: Speedometer_render_def Let_def text_positions_append
      text_positions_DrawFilledCircle text_positions_DrawCircle text_positions_DrawArcs
      text_positions_needles text_positions_scale Speedometer_num_marks_def)

lemma text_positions_Tachometer_render:
  "mjr_context_m s \<noteq> None \<Longrightarrow>
   text_positions (Tachometer_render s)
     = map (\<lambda>i. label_position (x_m s) (y_m s) (width_m s - 25) (Tachometer_mark_angle i))
         [0..<9]
       @ [(x_m s, y_m s + 5), (x_m s, y_m s - 15), (x_m s, y_m s - width_m s - 10)]"
  by (simp add: Tachometer_render_def Let_def text_positions_append
      text_positions_DrawFilledCircle text_positions_DrawCircle text_positions_DrawArcs
      text_positions_needles text_positions_scale Tachometer_num_marks_def)

lemma text_positions_FuelGauge_render:
  "mjr_context_m s \<noteq> None \<Longrightarrow>
   text_positions (FuelGauge_render s)
     = map (\<lambda>i. label_position (x_m s) (y_m s) (width_m s - 25) (FuelGauge_mark_angle i))
         (filter even [0..<11])
       @ [(x_m s, y_m s + 5), (x_m s, y_m s - 15), (x_m s, y_m s - width_m s - 10)]"
  by (simp add: FuelGauge_render_def Let_def text_positions_append
      text_positions_DrawFilledCircle text_positions_DrawCircle text_positions_DrawArcs
      text_positions_needles text_positions_scale FuelGauge_num_marks_def)

section \<open>Properties\<close>

text \<open>
  C4. Over every sequence of calls of the telemetry sampler the stored fuel level never
  rises and never drops below 0: from any state of a dashboard with fuel level \<open>f\<close>, a
  sequence of \<open>n\<close> returning calls of \<^verbatim>\<open>UpdateData\<close> leaves the fuel level
  \<open>max 0 (f - 0.001 n)\<close>, which is at most \<open>f\<close> and at least 0. Each call subtracts
  0.001 and clamps at 0; no operation adds fuel.
\<close>

theorem fuel_level_never_rises:
  assumes "reachable w" and "UpdateData_calls cs w = Some w'"
  shows "fuel_level (data_m (dash w'))
           = max 0 (fuel_level (data_m (dash w)) - 0.001 * real (length cs))
         \<and> fuel_level (data_m (dash w')) \<le> fuel_level (data_m (dash w))
         \<and> 0 \<le> fuel_level (data_m (dash w'))"
  using reachable_fuel [OF assms(1)] UpdateData_calls_fuel [OF assms(2)]
  by (auto simp: max_def)

theorem fuel_level_never_rises_witness:
  "reachable Dashboard_ctor
   \<and> UpdateData_calls [(None, at_rest), (None, at_rest)] Dashboard_ctor
       = Some (Dashboard_ctor\<lparr>dash := (dash Dashboard_ctor)
                 \<lparr>data_m := \<lparr>speed = 0, rpm = 0, fuel_level = 99.998\<rparr>\<rparr>\<rparr>)
   \<and> fuel_level (data_m (dash (Dashboard_ctor\<lparr>dash := (dash Dashboard_ctor)
                 \<lparr>data_m := \<lparr>speed = 0, rpm = 0, fuel_level = 99.998\<rparr>\<rparr>\<rparr>)))
       = max 0 (fuel_level (data_m (dash Dashboard_ctor))
                - 0.001 * real (length [(None :: mjModel option, at_rest), (None, at_rest)]))
   \<and> fuel_level (data_m (dash (Dashboard_ctor\<lparr>dash := (dash Dashboard_ctor)
                 \<lparr>data_m := \<lparr>speed = 0, rpm = 0, fuel_level = 99.998\<rparr>\<rparr>\<rparr>)))
       \<le> fuel_level (data_m (dash Dashboard_ctor))
   \<and> 0 \<le> fuel_level (data_m (dash (Dashboard_ctor\<lparr>dash := (dash Dashboard_ctor)
                 \<lparr>data_m := \<lparr>speed = 0, rpm = 0, fuel_level = 99.998\<rparr>\<rparr>\<rparr>)))"
proof -
  have r: "reachable Dashboard_ctor"
    by (rule reachable.ctor)
  have u: "UpdateData_calls [(None, at_rest), (None, at_rest)] Dashboard_ctor
       = Some (Dashboard_ctor\<lparr>dash := (dash Dashboard_ctor)
                 \<lparr>data_m := \<lparr>speed = 0, rpm = 0, fuel_level = 99.998\<rparr>\<rparr>\<rparr>)"
    by (simp only: UpdateData_calls.simps UpdateData_at_rest_ctor UpdateData_at_rest_again
        Option.bind.bind_lunit)
  from fuel_level_never_rises [OF r u] r u show ?thesis
    by blast
qed

text \<open>
  C5. The sampler computes \<open>rpm = speed \<times> 100\<close> clamped to \<open>[0, 8000]\<close>, where the speed
  is 3.6 times the length of the velocity read; a larger sampled speed never gives a
  smaller rpm. The value each gauge displays is its input clamped to the gauge's range,
  \<open>min (max input lo) hi\<close>, with ranges \<open>[0, 240]\<close>, \<open>[0, 8000]\<close> and \<open>[0, 100]\<close>.
\<close>

theorem rpm_of_speed_and_clamps:
  assumes "UpdateData model data w = Some w'" and "UpdateData model2 data2 v = Some v'"
  shows "speed (data_m (dash w')) = mju_norm3 (velocity data) * 3.6
         \<and> rpm (data_m (dash w')) = min (max (speed (data_m (dash w')) * 100) 0) 8000
         \<and> (speed (data_m (dash w')) \<le> speed (data_m (dash v'))
              \<longrightarrow> rpm (data_m (dash w')) \<le> rpm (data_m (dash v')))
         \<and> Speedometer_clamp s = min (max s 0) 240
         \<and> Tachometer_clamp s = min (max s 0) 8000
         \<and> FuelGauge_clamp s = min (max s 0) 100"
proof -
  have r1: "rpm (data_m (dash w')) = min (max (speed (data_m (dash w')) * 100) 0) 8000"
    unfolding UpdateData_data_m [OF assms(1)] by (rule sample_rpm)
  have r2: "rpm (data_m (dash v')) = min (max (speed (data_m (dash v')) * 100) 0) 8000"
    unfolding UpdateData_data_m [OF assms(2)] by (rule sample_rpm)
  have s1: "speed (data_m (dash w')) = mju_norm3 (velocity data) * 3.6"
    unfolding UpdateData_data_m [OF assms(1)] by (rule sample_speed)
  have m: "rpm (data_m (dash w')) \<le> rpm (data_m (dash v'))"
    if "speed (data_m (dash w')) \<le> speed (data_m (dash v'))"
    unfolding r1 r2 using that by (simp add: min_def max_def)
  have c1: "Speedometer_clamp s = min (max s 0) 240"
    by (simp add: Speedometer_clamp_def min_speed_def max_speed_def)
  have c2: "Tachometer_clamp s = min (max s 0) 8000"
    by (simp add: Tachometer_clamp_def min_rpm_def max_rpm_def)
  have c3: "FuelGauge_clamp s = min (max s 0) 100"
    by (simp add: FuelGauge_clamp_def)
  from r1 s1 m c1 c2 c3 show ?thesis
    by blast
qed

theorem rpm_of_speed_and_clamps_witness:
  "UpdateData None (Some \<lparr>qvel = [3, 4, 0]\<rparr>) Dashboard_ctor
     = Some (Dashboard_ctor\<lparr>dash := (dash Dashboard_ctor)
               \<lparr>data_m := \<lparr>speed = 18, rpm = 1800, fuel_level = 99.999\<rparr>\<rparr>\<rparr>)
   \<and> UpdateData None (Some \<lparr>qvel = [0, 0, 30]\<rparr>) Dashboard_ctor
     = Some (Dashboard_ctor\<lparr>dash := (dash Dashboard_ctor)
               \<lparr>data_m := \<lparr>speed = 108, rpm = 8000, fuel_level = 99.999\<rparr>\<rparr>\<rparr>)
   \<and> rpm \<lparr>speed = 18, rpm = 1800, fuel_level = 99.999\<rparr>
       = min (max (speed \<lparr>speed = 18, rpm = 1800, fuel_level = 99.999\<rparr> * 100) 0) 8000
   \<and> rpm \<lparr>speed = 18, rpm = 1800, fuel_level = 99.999\<rparr>
       \<le> rpm \<lparr>speed = 108, rpm = 8000, fuel_level = 99.999\<rparr>
   \<and> Speedometer_clamp 300 = min (max 300 0) 240"
proof -
  have u1: "UpdateData None (Some \<lparr>qvel = [3, 4, 0]\<rparr>) Dashboard_ctor
     = Some (Dashboard_ctor\<lparr>dash := (dash Dashboard_ctor)
               \<lparr>data_m := \<lparr>speed = 18, rpm = 1800, fuel_level = 99.999\<rparr>\<rparr>\<rparr>)"
    by (simp add: UpdateData_def read_qvel_def push_values_def Dashboard_ctor_def sample_def
        mju_norm3_def Let_def)
  have u2: "UpdateData None (Some \<lparr>qvel = [0, 0, 30]\<rparr>) Dashboard_ctor
     = Some (Dashboard_ctor\<lparr>dash := (dash Dashboard_ctor)
               \<lparr>data_m := \<lparr>speed = 108, rpm = 8000, fuel_level = 99.999\<rparr>\<rparr>\<rparr>)"
    by (simp add: UpdateData_def read_qvel_def push_values_def Dashboard_ctor_def sample_def
        mju_norm3_def Let_def)
  show ?thesis
    using rpm_of_speed_and_clamps [OF u1 u2, of 300] u1 u2 by simp
qed

text \<open>
  C1, as stated: when the simulation state that the sampler needs is not there, the call
  returns and leaves the state as it was. It does not: with only two velocity
  coordinates the read of \<^verbatim>\<open>data->qvel[2]\<close> is out of range.
\<close>

theorem UpdateData_skip_counterexample:
  "\<not> available (Some \<lparr>qvel = [1, 2]\<rparr>)
   \<and> UpdateData None (Some \<lparr>qvel = [1, 2]\<rparr>) Dashboard_ctor = None
   \<and> UpdateData None (Some \<lparr>qvel = [1, 2]\<rparr>) Dashboard_ctor \<noteq> Some Dashboard_ctor"
  by (simp add: available_def UpdateData_def read_qvel_def)

text \<open>
  C1, amended. \<^verbatim>\<open>UpdateData\<close> has no check of its input and no early return. In every
  state of a dashboard, a call with the simulation data and its three velocity
  coordinates there returns with the snapshot recomputed (speed, rpm and fuel level); a
  call without them does not return at all: it reads through a null pointer or out of
  range.
\<close>

theorem UpdateData_has_no_guard:
  assumes "reachable w"
  shows "(available data \<longrightarrow>
            (\<exists>w'. UpdateData model data w = Some w'
                 \<and> speed (data_m (dash w')) = mju_norm3 (velocity data) * 3.6
                 \<and> rpm (data_m (dash w')) = min (max (speed (data_m (dash w')) * 100) 0) 8000
                 \<and> fuel_level (data_m (dash w')) = max 0 (fuel_level (data_m (dash w)) - 0.001)))
         \<and> (\<not> available data \<longrightarrow> UpdateData model data w = None)"
proof (intro conjI impI)
  assume av: "available data"
  then obtain w' where w': "UpdateData model data w = Some w'"
    using reachable_UpdateData_returns [OF assms] by blast
  show "\<exists>w'. UpdateData model data w = Some w'
                 \<and> speed (data_m (dash w')) = mju_norm3 (velocity data) * 3.6
                 \<and> rpm (data_m (dash w')) = min (max (speed (data_m (dash w')) * 100) 0) 8000
                 \<and> fuel_level (data_m (dash w')) = max 0 (fuel_level (data_m (dash w)) - 0.001)"
    using w' by (simp add: UpdateData_data_m [OF w'] sample_speed sample_rpm sample_fuel)
next
  assume "\<not> available data"
  then show "UpdateData model data w = None"
    by (rule UpdateData_unavailable)
qed

theorem UpdateData_has_no_guard_witness:
  "reachable Dashboard_ctor
   \<and> available (Some \<lparr>qvel = [3, 4, 0]\<rparr>)
   \<and> UpdateData None (Some \<lparr>qvel = [3, 4, 0]\<rparr>) Dashboard_ctor \<noteq> None
   \<and> \<not> available (Some \<lparr>qvel = [1, 2]\<rparr>)
   \<and> UpdateData None (Some \<lparr>qvel = [1, 2]\<rparr>) Dashboard_ctor = None"
proof -
  have r: "reachable Dashboard_ctor"
    by (rule reachable.ctor)
  have a: "available (Some \<lparr>qvel = [3, 4, 0]\<rparr>)" and b: "\<not> available (Some \<lparr>qvel = [1, 2]\<rparr>)"
    by (simp_all add: available_def)
  show ?thesis
    using UpdateData_has_no_guard [OF r, of "Some \<lparr>qvel = [3, 4, 0]\<rparr>" None]
      UpdateData_has_no_guard [OF r, of "Some \<lparr>qvel = [1, 2]\<rparr>" None] r a b
    by auto
qed

text \<open>
  C2, as stated: at the minimum the needle of the fuel gauge is at \<open>+\<pi>/2\<close> and at the
  maximum at \<open>-\<pi>/2\<close>. It is the other way round.
\<close>

theorem fuel_needle_counterexample:
  "fuel_angle (FuelGauge_clamp 0) \<noteq> pi / 2 \<and> fuel_angle (FuelGauge_clamp 100) \<noteq> - pi / 2"
  using pi_gt_zero by (simp add: fuel_angle_eq FuelGauge_clamp_def)

text \<open>
  C2, amended. On each gauge the needle angle is a linear, hence continuous and monotonic,
  function of the clamped value: \<open>-\<pi>/2 + \<pi> \<times> clamped / max\<close>. On all three gauges,
  the fuel gauge too, it is \<open>-\<pi>/2\<close> at the minimum and \<open>+\<pi>/2\<close> at the maximum: the
  fuel gauge reverses its scale and maps the value through \<open>1 - value/100\<close>, and the
  two reversals cancel.
\<close>

theorem needle_angle_linear:
  "speed_angle (Speedometer_clamp v) = - pi / 2 + pi * (Speedometer_clamp v / 240)
   \<and> rpm_angle (Tachometer_clamp v) = - pi / 2 + pi * (Tachometer_clamp v / 8000)
   \<and> fuel_angle (FuelGauge_clamp v) = - pi / 2 + pi * (FuelGauge_clamp v / 100)
   \<and> (v \<le> u \<longrightarrow>
         speed_angle (Speedometer_clamp v) \<le> speed_angle (Speedometer_clamp u)
         \<and> rpm_angle (Tachometer_clamp v) \<le> rpm_angle (Tachometer_clamp u)
         \<and> fuel_angle (FuelGauge_clamp v) \<le> fuel_angle (FuelGauge_clamp u))
   \<and> speed_angle (Speedometer_clamp 0) = - pi / 2
   \<and> speed_angle (Speedometer_clamp 240) = pi / 2
   \<and> rpm_angle (Tachometer_clamp 0) = - pi / 2
   \<and> rpm_angle (Tachometer_clamp 8000) = pi / 2
   \<and> fuel_angle (FuelGauge_clamp 0) = - pi / 2
   \<and> fuel_angle (FuelGauge_clamp 100) = pi / 2"
proof -
  have mono: "- pi / 2 + pi * (a / k) \<le> - pi / 2 + pi * (b / k)" if "a \<le> b" "0 < k" for a b k :: real
    using that pi_gt_zero by (simp add: divide_right_mono)
  have "speed_angle (Speedometer_clamp v) \<le> speed_angle (Speedometer_clamp u)" if "v \<le> u"
    unfolding speed_angle_eq by (rule mono) (simp_all add: Speedometer_clamp_mono that)
  moreover have "rpm_angle (Tachometer_clamp v) \<le> rpm_angle (Tachometer_clamp u)" if "v \<le> u"
    unfolding rpm_angle_eq by (rule mono) (simp_all add: Tachometer_clamp_mono that)
  moreover have "fuel_angle (FuelGauge_clamp v) \<le> fuel_angle (FuelGauge_clamp u)" if "v \<le> u"
    unfolding fuel_angle_eq by (rule mono) (simp_all add: FuelGauge_clamp_mono that)
  moreover have "speed_angle (Speedometer_clamp 0) = - pi / 2"
    "speed_angle (Speedometer_clamp 240) = pi / 2"
    by (simp_all add: speed_angle_eq Speedometer_clamp_def min_speed_def max_speed_def)
  moreover have "rpm_angle (Tachometer_clamp 0) = - pi / 2"
    "rpm_angle (Tachometer_clamp 8000) = pi / 2"
    by (simp_all add: rpm_angle_eq Tachometer_clamp_def min_rpm_def max_rpm_def)
  moreover have "fuel_angle (FuelGauge_clamp 0) = - pi / 2"
    "fuel_angle (FuelGauge_clamp 100) = pi / 2"
    by (simp_all add: fuel_angle_eq FuelGauge_clamp_def)
  ultimately show ?thesis
    using speed_angle_eq rpm_angle_eq fuel_angle_eq by blast
qed

theorem needle_angle_linear_witness:
  "(60 :: real) \<le> 300
   \<and> speed_angle (Speedometer_clamp 60) \<le> speed_angle (Speedometer_clamp 300)
   \<and> rpm_angle (Tachometer_clamp 60) \<le> rpm_angle (Tachometer_clamp 300)
   \<and> fuel_angle (FuelGauge_clamp 60) \<le> fuel_angle (FuelGauge_clamp 300)
   \<and> speed_angle (Speedometer_clamp 60) = - pi / 2 + pi * (Speedometer_clamp 60 / 240)"
  using needle_angle_linear [of 60 300] by simp

text \<open>
  C3, as stated: on every gauge a value exactly on a threshold belongs to the higher
  zone. On the fuel gauge it belongs to the lower one: at 75 the segments are those of
  the zone from 25 to 75 (yellow, then green), not the single green one of the zone above
  75, and at 25 they are those of the zone below 25 (red first).
\<close>

theorem fuel_boundary_counterexample:
  "map arc_colour (FuelGauge_arcs (FuelGauge_clamp 75)) = [yellow, green]
   \<and> map arc_colour (FuelGauge_arcs (FuelGauge_clamp 75)) \<noteq> [green]
   \<and> map arc_colour (FuelGauge_arcs (FuelGauge_clamp 25)) = [red, yellow, green]
   \<and> map arc_colour (FuelGauge_arcs (FuelGauge_clamp 25)) \<noteq> [yellow, green]"
  by (simp add: FuelGauge_arcs_cases arc_colour_def yellow_def green_def red_def)

text \<open>
  C3, amended. The speedometer and the tachometer test the clamped value with strict
  \<open><\<close> against 80 and 160 (4000 and 6000): a value on a threshold is in the higher zone,
  whose segment begins at the threshold. The fuel gauge tests with strict \<open>>\<close> against 75
  and 25: a value on a threshold is in the lower zone (yellow at 75, red at 25). A value
  beyond the range is clamped to the end of the range, not wrapped.
\<close>

theorem zone_boundaries:
  "Speedometer_arcs (Speedometer_clamp v) =
     (if v < 80 then [(- pi / 2, speed_angle (Speedometer_clamp v), green)]
      else if v < 160 then
        [(- pi / 2, speed_angle 80, green), (speed_angle 80, speed_angle v, yellow)]
      else
        [(- pi / 2, speed_angle 80, green), (speed_angle 80, speed_angle 160, yellow),
         (speed_angle 160, speed_angle (Speedometer_clamp v), red)])
   \<and> Tachometer_arcs (Tachometer_clamp v) =
     (if v < 4000 then [(- pi / 2, rpm_angle (Tachometer_clamp v), green)]
      else if v < 6000 then
        [(- pi / 2, rpm_angle 4000, green), (rpm_angle 4000, rpm_angle v, yellow)]
      else
        [(- pi / 2, rpm_angle 4000, green), (rpm_angle 4000, rpm_angle 6000, yellow),
         (rpm_angle 6000, rpm_angle (Tachometer_clamp v), red)])
   \<and> FuelGauge_arcs (FuelGauge_clamp v) =
     (if 75 < v then [(fuel_angle (FuelGauge_clamp v), fuel_angle 0, green)]
      else if 25 < v then
        [(fuel_angle v, fuel_angle 75, yellow), (fuel_angle 75, fuel_angle 0, green)]
      else
        [(fuel_angle (FuelGauge_clamp v), fuel_angle 25, red),
         (fuel_angle 25, fuel_angle 75, yellow), (fuel_angle 75, fuel_angle 0, green)])
   \<and> (v \<le> 0 \<longrightarrow> Speedometer_clamp v = 0 \<and> Tachometer_clamp v = 0 \<and> FuelGauge_clamp v = 0)
   \<and> (240 \<le> v \<longrightarrow> Speedometer_clamp v = 240)
   \<and> (8000 \<le> v \<longrightarrow> Tachometer_clamp v = 8000)
   \<and> (100 \<le> v \<longrightarrow> FuelGauge_clamp v = 100)"
  unfolding Speedometer_arcs_cases Tachometer_arcs_cases FuelGauge_arcs_cases
  by (simp add: Speedometer_clamp_def Tachometer_clamp_def FuelGauge_clamp_def
      min_speed_def max_speed_def min_rpm_def max_rpm_def)

theorem zone_boundaries_witness:
  "Speedometer_arcs (Speedometer_clamp 80)
     = [(- pi / 2, speed_angle 80, green), (speed_angle 80, speed_angle 80, yellow)]
   \<and> Tachometer_arcs (Tachometer_clamp 80) = [(- pi / 2, rpm_angle 80, green)]
   \<and> FuelGauge_arcs (FuelGauge_clamp 80) = [(fuel_angle 80, fuel_angle 0, green)]
   \<and> Speedometer_arcs (Speedometer_clamp 300)
     = [(- pi / 2, speed_angle 80, green), (speed_angle 80, speed_angle 160, yellow),
        (speed_angle 160, speed_angle 240, red)]
   \<and> (240 :: real) \<le> 300 \<and> Speedometer_clamp 300 = 240
   \<and> (-5 :: real) \<le> 0 \<and> FuelGauge_clamp (-5) = 0"
  using zone_boundaries [of 80] zone_boundaries [of 300] zone_boundaries [of "-5"]
  by (simp add: Speedometer_clamp_def Tachometer_clamp_def FuelGauge_clamp_def
      min_speed_def max_speed_def min_rpm_def max_rpm_def)

text \<open>
  C7. Rendering is idempotent and only reads the widget: for each of the three gauges,
  \<open>n\<close> calls of \<^verbatim>\<open>render()\<close> in a row, with no update in between, all return, change
  nothing of the state but the screen (so the widget and its stored value stay as they
  are) and send the same sequence of host calls to the screen each time.
\<close>

theorem render_idempotent:
  "(deref_Speedometer p (heap w) = Some s \<longrightarrow>
      repeat_call n (Speedometer_render_at p) w
        = Some (w\<lparr>screen := screen w @ concat (replicate n (Speedometer_render s))\<rparr>))
   \<and> (deref_Tachometer p (heap w) = Some t \<longrightarrow>
      repeat_call n (Tachometer_render_at p) w
        = Some (w\<lparr>screen := screen w @ concat (replicate n (Tachometer_render t))\<rparr>))
   \<and> (deref_FuelGauge p (heap w) = Some f \<longrightarrow>
      repeat_call n (FuelGauge_render_at p) w
        = Some (w\<lparr>screen := screen w @ concat (replicate n (FuelGauge_render f))\<rparr>))"
  by (simp add: Speedometer_render_at_repeat Tachometer_render_at_repeat
      FuelGauge_render_at_repeat)

theorem render_idempotent_witness:
  "deref_Speedometer (Some 0) (heap drawn_gauges)
     = Some (Speedometer_update 90 (Speedometer_ctor 400 200 150 150 (Some 0)))
   \<and> deref_Tachometer (Some 1) (heap drawn_gauges)
     = Some (Tachometer_update 5000 (Tachometer_ctor 150 200 80 80 (Some 0)))
   \<and> deref_FuelGauge (Some 2) (heap drawn_gauges)
     = Some (FuelGauge_update 40 (FuelGauge_ctor 650 200 80 80 (Some 0)))
   \<and> repeat_call 2 (Speedometer_render_at (Some 0)) drawn_gauges
     = Some (drawn_gauges
         \<lparr>screen := screen drawn_gauges @ concat (replicate 2 (Speedometer_render
            (Speedometer_update 90 (Speedometer_ctor 400 200 150 150 (Some 0)))))\<rparr>)
   \<and> repeat_call 3 (Tachometer_render_at (Some 1)) drawn_gauges
     = Some (drawn_gauges
         \<lparr>screen := screen drawn_gauges @ concat (replicate 3 (Tachometer_render
            (Tachometer_update 5000 (Tachometer_ctor 150 200 80 80 (Some 0)))))\<rparr>)
   \<and> repeat_call 2 (FuelGauge_render_at (Some 2)) drawn_gauges
     = Some (drawn_gauges
         \<lparr>screen := screen drawn_gauges @ concat (replicate 2 (FuelGauge_render
            (FuelGauge_update 40 (FuelGauge_ctor 650 200 80 80 (Some 0)))))\<rparr>)"
proof -
  have d: "deref_Speedometer (Some 0) (heap drawn_gauges)
     = Some (Speedometer_update 90 (Speedometer_ctor 400 200 150 150 (Some 0)))"
    "deref_Tachometer (Some 1) (heap drawn_gauges)
     = Some (Tachometer_update 5000 (Tachometer_ctor 150 200 80 80 (Some 0)))"
    "deref_FuelGauge (Some 2) (heap drawn_gauges)
     = Some (FuelGauge_update 40 (FuelGauge_ctor 650 200 80 80 (Some 0)))"
    by (simp_all add: drawn_gauges_def deref_Speedometer_def deref_Tachometer_def
        deref_FuelGauge_def)
  from d render_idempotent [where p = "Some 0" and w = drawn_gauges and n = 2]
    render_idempotent [where p = "Some 1" and w = drawn_gauges and n = 3]
    render_idempotent [where p = "Some 2" and w = drawn_gauges and n = 2]
  show ?thesis
    by blast
qed

text \<open>
  C6. The three gauges are constructed exactly once. In every state of a dashboard, a
  returning \<^verbatim>\<open>Render\<close> leaves the three pointers at the addresses 0, 1 and 2 and a heap
  of exactly three objects. If the speedometer pointer was null, the heap was empty and
  the three objects are new, at the positions computed from the frame. Otherwise the
  pointers and the objects at these addresses are the ones from before: only their
  position (to the newly computed one) and their stored value have changed, and nothing
  is allocated.
\<close>

theorem gauges_constructed_once:
  assumes "reachable w" and "Render model data c rect w = Some w'"
  shows "\<exists>r. rect = Some r \<and>
     (case layout r of ((sx, sy), (tx, ty), (fx, fy)) \<Rightarrow>
        speedometer_m (dash w') = Some 0 \<and> tachometer_m (dash w') = Some 1
        \<and> fuel_gauge_m (dash w') = Some 2 \<and> length (heap w') = 3
        \<and> (if speedometer_m (dash w) = None then
              heap w = []
              \<and> heap w' =
                  [SpeedometerObj (Speedometer_ctor sx sy 150 150 c),
                   TachometerObj (Tachometer_ctor tx ty 80 80 c),
                   FuelGaugeObj (FuelGauge_ctor fx fy 80 80 c)]
            else
              speedometer_m (dash w) = Some 0 \<and> tachometer_m (dash w) = Some 1
              \<and> fuel_gauge_m (dash w) = Some 2
              \<and> (\<exists>s t f.
                    heap w = [SpeedometerObj s, TachometerObj t, FuelGaugeObj f]
                    \<and> heap w' =
                        [SpeedometerObj
                           (s\<lparr>speed_m := speed (data_m (dash w')), x_m := sx, y_m := sy\<rparr>),
                         TachometerObj
                           (t\<lparr>rpm_m := rpm (data_m (dash w')), x_m := tx, y_m := ty\<rparr>),
                         FuelGaugeObj
                           (f\<lparr>fuel_level_m := fuel_level (data_m (dash w')),
                              x_m := fx, y_m := fy\<rparr>)])))"
proof -
  have av: "available data"
    using assms(2) Render_unavailable by fastforce
  obtain r where r: "rect = Some r"
    using assms(2) Render_no_rect by (cases rect) auto
  obtain sx sy tx ty fx fy where l: "layout r = ((sx, sy), (tx, ty), (fx, fy))"
    by (metis prod.exhaust)
  from reachable_gauges [OF assms(1)] show ?thesis
  proof
    assume a: "gauges_absent w"
    have "w' = w\<lparr>dash := (dash w)\<lparr>data_m := sample (velocity data) (data_m (dash w)),
                                dash_mjr_context_m := c,
                                speedometer_m := Some 0, tachometer_m := Some 1,
                                fuel_gauge_m := Some 2\<rparr>,
             heap := [SpeedometerObj (Speedometer_ctor sx sy speedometer_radius speedometer_radius c),
                      TachometerObj (Tachometer_ctor tx ty small_gauge_radius small_gauge_radius c),
                      FuelGaugeObj (FuelGauge_ctor fx fy small_gauge_radius small_gauge_radius c)],
             screen := screen w
               @ Speedometer_render (Speedometer_ctor sx sy speedometer_radius speedometer_radius c)
               @ Tachometer_render (Tachometer_ctor tx ty small_gauge_radius small_gauge_radius c)
               @ FuelGauge_render (FuelGauge_ctor fx fy small_gauge_radius small_gauge_radius c)\<rparr>"
      using assms(2) unfolding r Render_absent [OF av a l] by simp
    then show ?thesis
      using a by (simp add: r l gauges_absent_def speedometer_radius_def small_gauge_radius_def)
  next
    assume "gauges_present w"
    then show ?thesis
    proof (rule gauges_presentE)
      fix s t f
      assume h: "speedometer_m (dash w) = Some 0" "tachometer_m (dash w) = Some 1"
        "fuel_gauge_m (dash w) = Some 2"
        "heap w = [SpeedometerObj s, TachometerObj t, FuelGaugeObj f]"
      have "w' = w\<lparr>dash := (dash w)\<lparr>data_m := sample (velocity data) (data_m (dash w)),
                                dash_mjr_context_m := c\<rparr>,
             heap := [SpeedometerObj (s\<lparr>speed_m := speed (sample (velocity data) (data_m (dash w))), x_m := sx, y_m := sy\<rparr>),
                      TachometerObj (t\<lparr>rpm_m := rpm (sample (velocity data) (data_m (dash w))), x_m := tx, y_m := ty\<rparr>),
                      FuelGaugeObj (f\<lparr>fuel_level_m := fuel_level (sample (velocity data) (data_m (dash w))), x_m := fx, y_m := fy\<rparr>)],
             screen := screen w
               @ Speedometer_render (s\<lparr>speed_m := speed (sample (velocity data) (data_m (dash w))), x_m := sx, y_m := sy\<rparr>)
               @ Tachometer_render (t\<lparr>rpm_m := rpm (sample (velocity data) (data_m (dash w))), x_m := tx, y_m := ty\<rparr>)
               @ FuelGauge_render (f\<lparr>fuel_level_m := fuel_level (sample (velocity data) (data_m (dash w))), x_m := fx, y_m := fy\<rparr>)\<rparr>"
        using assms(2) unfolding r Render_present [OF av h l] by simp
      then show ?thesis
        using h by (simp add: r l)
    qed
  qed
qed

theorem gauges_constructed_once_witness:
  "reachable Dashboard_ctor
   \<and> Render None at_rest None frame_800_600 Dashboard_ctor = Some after_first_frame
   \<and> reachable after_first_frame
   \<and> Render None at_rest None frame_1000_800 after_first_frame = Some after_second_frame
   \<and> heap Dashboard_ctor = []
   \<and> length (heap after_first_frame) = 3
   \<and> length (heap after_second_frame) = 3
   \<and> speedometer_m (dash after_second_frame) = speedometer_m (dash after_first_frame)
   \<and> tachometer_m (dash after_second_frame) = tachometer_m (dash after_first_frame)
   \<and> fuel_gauge_m (dash after_second_frame) = fuel_gauge_m (dash after_first_frame)"
proof -
  have r: "reachable Dashboard_ctor"
    by (rule reachable.ctor)
  have r1: "reachable after_first_frame"
    by (rule reachable.render [OF r Render_first_frame])
  show ?thesis
    using gauges_constructed_once [OF r Render_first_frame]
      gauges_constructed_once [OF r1 Render_second_frame]
      r r1 Render_first_frame Render_second_frame
    by (simp add: frame_800_600_def frame_1000_800_def layout_800_600 layout_1000_800
        Dashboard_ctor_def after_first_frame_def after_second_frame_def)
qed

text \<open>
  C10. On the first \<^verbatim>\<open>Render\<close> of a dashboard the gauges show the value 0 of their
  constructors, not the telemetry sampled in that frame: \<^verbatim>\<open>UpdateData\<close> runs while the
  three pointers are still null, so nothing is pushed, and the gauges are made afterwards.
  The fuel gauge's readout is "0" while the snapshot's fuel level is 99.999. On the second
  \<^verbatim>\<open>Render\<close> the gauges hold the values sampled in that frame.
\<close>

theorem first_frame_shows_zero:
  assumes "available data" and "available data2"
  shows "\<exists>w1 w2 s t f s2 t2 f2.
      Render model data c (Some r) Dashboard_ctor = Some w1
    \<and> heap w1 = [SpeedometerObj s, TachometerObj t, FuelGaugeObj f]
    \<and> speed_m s = 0 \<and> rpm_m t = 0 \<and> fuel_level_m f = 0
    \<and> screen w1 = Speedometer_render s @ Tachometer_render t @ FuelGauge_render f
    \<and> (c \<noteq> None \<longrightarrow>
          mjr_text 0 ''0'' c (x_m f) (y_m f + 5) 1 1 1 \<in> set (FuelGauge_render f))
    \<and> speed (data_m (dash w1)) = mju_norm3 (velocity data) * 3.6
    \<and> fuel_level (data_m (dash w1)) = 99.999
    \<and> Render model2 data2 c2 (Some r2) w1 = Some w2
    \<and> heap w2 = [SpeedometerObj s2, TachometerObj t2, FuelGaugeObj f2]
    \<and> speed_m s2 = speed (data_m (dash w2))
    \<and> speed_m s2 = mju_norm3 (velocity data2) * 3.6
    \<and> rpm_m t2 = rpm (data_m (dash w2))
    \<and> fuel_level_m f2 = fuel_level (data_m (dash w2))
    \<and> fuel_level_m f2 = 99.998
    \<and> screen w2 = screen w1 @ Speedometer_render s2 @ Tachometer_render t2
                             @ FuelGauge_render f2"
proof -
  obtain sx sy tx ty fx fy where l: "layout r = ((sx, sy), (tx, ty), (fx, fy))"
    by (metis prod.exhaust)
  obtain sx2 sy2 tx2 ty2 fx2 fy2 where l2: "layout r2 = ((sx2, sy2), (tx2, ty2), (fx2, fy2))"
    by (metis prod.exhaust)
  define s where "s = Speedometer_ctor sx sy speedometer_radius speedometer_radius c"
  define t where "t = Tachometer_ctor tx ty small_gauge_radius small_gauge_radius c"
  define f where "f = FuelGauge_ctor fx fy small_gauge_radius small_gauge_radius c"
  define D1 where "D1 = sample (velocity data) (data_m (dash Dashboard_ctor))"
  define w1 where "w1 = Dashboard_ctor\<lparr>dash := (dash Dashboard_ctor)\<lparr>data_m := D1,
                                dash_mjr_context_m := c,
                                speedometer_m := Some 0, tachometer_m := Some 1,
                                fuel_gauge_m := Some 2\<rparr>,
             heap := [SpeedometerObj s, TachometerObj t, FuelGaugeObj f],
             screen := screen Dashboard_ctor
               @ Speedometer_render s @ Tachometer_render t @ FuelGauge_render f\<rparr>"
  have e1: "Render model data c (Some r) Dashboard_ctor = Some w1"
    unfolding w1_def s_def t_def f_def D1_def
    by (rule Render_absent [OF assms(1) gauges_absent_ctor l])
  have h1: "speedometer_m (dash w1) = Some 0" "tachometer_m (dash w1) = Some 1"
    "fuel_gauge_m (dash w1) = Some 2" "heap w1 = [SpeedometerObj s, TachometerObj t, FuelGaugeObj f]"
    by (simp_all add: w1_def)
  define D2 where "D2 = sample (velocity data2) (data_m (dash w1))"
  define s2 where "s2 = s\<lparr>speed_m := speed D2, x_m := sx2, y_m := sy2\<rparr>"
  define t2 where "t2 = t\<lparr>rpm_m := rpm D2, x_m := tx2, y_m := ty2\<rparr>"
  define f2 where "f2 = f\<lparr>fuel_level_m := fuel_level D2, x_m := fx2, y_m := fy2\<rparr>"
  define w2 where "w2 = w1\<lparr>dash := (dash w1)\<lparr>data_m := D2, dash_mjr_context_m := c2\<rparr>,
             heap := [SpeedometerObj s2, TachometerObj t2, FuelGaugeObj f2],
             screen := screen w1 @ Speedometer_render s2 @ Tachometer_render t2
                        @ FuelGauge_render f2\<rparr>"
  have e2: "Render model2 data2 c2 (Some r2) w1 = Some w2"
    unfolding w2_def s2_def t2_def f2_def D2_def
    by (rule Render_present [OF assms(2) h1 l2])
  have z: "speed_m s = 0" "rpm_m t = 0" "fuel_level_m f = 0"
    by (simp_all add: s_def t_def f_def Speedometer_ctor_def Tachometer_ctor_def
        FuelGauge_ctor_def)
  have sc: "screen w1 = Speedometer_render s @ Tachometer_render t @ FuelGauge_render f"
    by (simp add: w1_def Dashboard_ctor_def)
  have ro: "mjr_text 0 ''0'' c (x_m f) (y_m f + 5) 1 1 1 \<in> set (FuelGauge_render f)"
    if "c \<noteq> None"
  proof -
    have "mjr_context_m f = c" "FuelGauge_clamp (fuel_level_m f) = 0"
      by (simp_all add: f_def FuelGauge_ctor_def FuelGauge_clamp_def)
    with FuelGauge_render_readout [of f] that show ?thesis
      by (simp add: snprintf_0f_0)
  qed
  have d1: "speed (data_m (dash w1)) = mju_norm3 (velocity data) * 3.6"
    "fuel_level (data_m (dash w1)) = 99.999"
    by (simp_all add: w1_def D1_def sample_speed sample_fuel Dashboard_ctor_def)
  have d2: "speed_m s2 = speed (data_m (dash w2))"
    "speed_m s2 = mju_norm3 (velocity data2) * 3.6"
    "rpm_m t2 = rpm (data_m (dash w2))"
    "fuel_level_m f2 = fuel_level (data_m (dash w2))"
    "fuel_level_m f2 = 99.998"
    using d1(2)
    by (simp_all add: w2_def s2_def t2_def f2_def D2_def sample_speed sample_fuel)
  have h2: "heap w2 = [SpeedometerObj s2, TachometerObj t2, FuelGaugeObj f2]"
    "screen w2 = screen w1 @ Speedometer_render s2 @ Tachometer_render t2
                             @ FuelGauge_render f2"
    by (simp_all add: w2_def)
  from e1 h1(4) z sc ro d1 e2 h2 d2 show ?thesis
    by blast
qed

theorem first_frame_shows_zero_witness:
  "available (Some \<lparr>qvel = [0, 0, 0]\<rparr>) \<and> available (Some \<lparr>qvel = [3, 4, 0]\<rparr>)
   \<and> (\<exists>w1 w2 s f s2 f2.
        Render None (Some \<lparr>qvel = [0, 0, 0]\<rparr>) (Some 0)
          (Some \<lparr>left = 0, bottom = 0, width = 800, height = 600\<rparr>) Dashboard_ctor = Some w1
        \<and> heap w1 ! 2 = FuelGaugeObj f \<and> fuel_level_m f = 0
        \<and> mjr_text 0 ''0'' (Some 0) (x_m f) (y_m f + 5) 1 1 1 \<in> set (FuelGauge_render f)
        \<and> fuel_level (data_m (dash w1)) = 99.999
        \<and> Render None (Some \<lparr>qvel = [3, 4, 0]\<rparr>) (Some 0)
             (Some \<lparr>left = 0, bottom = 0, width = 800, height = 600\<rparr>) w1 = Some w2
        \<and> heap w2 ! 0 = SpeedometerObj s2 \<and> speed_m s2 = 18
        \<and> heap w2 ! 2 = FuelGaugeObj f2 \<and> fuel_level_m f2 = 99.998)"
proof -
  have a: "available (Some \<lparr>qvel = [0, 0, 0]\<rparr>)" and b: "available (Some \<lparr>qvel = [3, 4, 0]\<rparr>)"
    by (simp_all add: available_def)
  have n: "mju_norm3 (velocity (Some \<lparr>qvel = [3, 4, 0]\<rparr>)) * 3.6 = 18"
    by (simp add: velocity_def mju_norm3_def)
  from first_frame_shows_zero [OF a b, of None "Some 0"
      "\<lparr>left = 0, bottom = 0, width = 800, height = 600\<rparr>" None "Some 0"
      "\<lparr>left = 0, bottom = 0, width = 800, height = 600\<rparr>"]
  obtain w1 w2 s t f s2 t2 f2 where
      "Render None (Some \<lparr>qvel = [0, 0, 0]\<rparr>) (Some 0)
          (Some \<lparr>left = 0, bottom = 0, width = 800, height = 600\<rparr>) Dashboard_ctor = Some w1"
      "heap w1 = [SpeedometerObj s, TachometerObj t, FuelGaugeObj f]"
      "fuel_level_m f = 0"
      "mjr_text 0 ''0'' (Some 0) (x_m f) (y_m f + 5) 1 1 1 \<in> set (FuelGauge_render f)"
      "fuel_level (data_m (dash w1)) = 99.999"
      "Render None (Some \<lparr>qvel = [3, 4, 0]\<rparr>) (Some 0)
             (Some \<lparr>left = 0, bottom = 0, width = 800, height = 600\<rparr>) w1 = Some w2"
      "heap w2 = [SpeedometerObj s2, TachometerObj t2, FuelGaugeObj f2]"
      "speed_m s2 = mju_norm3 (velocity (Some \<lparr>qvel = [3, 4, 0]\<rparr>)) * 3.6"
      "fuel_level_m f2 = 99.998"
    by auto
  then show ?thesis
    using a b n by (intro conjI exI [of _ w1] exI [of _ w2] exI [of _ f] exI [of _ s2] exI [of _ f2]) simp_all
qed

text \<open>
  C9. A \<^verbatim>\<open>Render\<close> with the null context after one with a context: the gauges were
  made in the first call and kept its context, so in the second call their guards pass
  and they draw, with the old context. The snapshot is updated in both calls.
\<close>

theorem stale_context_still_draws:
  "do { w1 \<leftarrow> Render None (Some \<lparr>qvel = [0, 0, 0]\<rparr>) (Some 0)
               (Some \<lparr>left = 0, bottom = 0, width = 800, height = 600\<rparr>) Dashboard_ctor;
        w2 \<leftarrow> Render None (Some \<lparr>qvel = [0, 0, 0]\<rparr>) None
               (Some \<lparr>left = 0, bottom = 0, width = 800, height = 600\<rparr>) w1;
        Some (dash_mjr_context_m (dash w2), fuel_level (data_m (dash w2)),
              length (screen w1) < length (screen w2), last (screen w2)) }
   = Some (None, 99.998, True, mjr_text 0 ''FUEL'' (Some 0) 650 110 1 1 1)"
proof -
  define s where "s = Speedometer_ctor 400 200 speedometer_radius speedometer_radius (Some 0)"
  define t where "t = Tachometer_ctor 150 200 small_gauge_radius small_gauge_radius (Some 0)"
  define f where "f = FuelGauge_ctor 650 200 small_gauge_radius small_gauge_radius (Some 0)"
  define D1 where "D1 = sample (velocity (Some \<lparr>qvel = [0, 0, 0]\<rparr>)) (data_m (dash Dashboard_ctor))"
  define w1 where "w1 = Dashboard_ctor\<lparr>dash := (dash Dashboard_ctor)\<lparr>data_m := D1,
                                dash_mjr_context_m := Some 0,
                                speedometer_m := Some 0, tachometer_m := Some 1,
                                fuel_gauge_m := Some 2\<rparr>,
             heap := [SpeedometerObj s, TachometerObj t, FuelGaugeObj f],
             screen := screen Dashboard_ctor
               @ Speedometer_render s @ Tachometer_render t @ FuelGauge_render f\<rparr>"
  have e1: "Render None (Some \<lparr>qvel = [0, 0, 0]\<rparr>) (Some 0)
               (Some \<lparr>left = 0, bottom = 0, width = 800, height = 600\<rparr>) Dashboard_ctor = Some w1"
    unfolding w1_def s_def t_def f_def D1_def
    by (rule Render_absent [OF available_zero gauges_absent_ctor layout_800_600])
  have h1: "speedometer_m (dash w1) = Some 0" "tachometer_m (dash w1) = Some 1"
    "fuel_gauge_m (dash w1) = Some 2" "heap w1 = [SpeedometerObj s, TachometerObj t, FuelGaugeObj f]"
    by (simp_all add: w1_def)
  define D2 where "D2 = sample (velocity (Some \<lparr>qvel = [0, 0, 0]\<rparr>)) (data_m (dash w1))"
  define s2 where "s2 = s\<lparr>speed_m := speed D2, x_m := 400, y_m := 200\<rparr>"
  define t2 where "t2 = t\<lparr>rpm_m := rpm D2, x_m := 150, y_m := 200\<rparr>"
  define f2 where "f2 = f\<lparr>fuel_level_m := fuel_level D2, x_m := 650, y_m := 200\<rparr>"
  define w2 where "w2 = w1\<lparr>dash := (dash w1)\<lparr>data_m := D2, dash_mjr_context_m := None\<rparr>,
             heap := [SpeedometerObj s2, TachometerObj t2, FuelGaugeObj f2],
             screen := screen w1 @ Speedometer_render s2 @ Tachometer_render t2
                        @ FuelGauge_render f2\<rparr>"
  have e2: "Render None (Some \<lparr>qvel = [0, 0, 0]\<rparr>) None
               (Some \<lparr>left = 0, bottom = 0, width = 800, height = 600\<rparr>) w1 = Some w2"
    unfolding w2_def s2_def t2_def f2_def D2_def
    by (rule Render_present [OF available_zero h1 layout_800_600])
  have c: "mjr_context_m f2 = Some 0" "x_m f2 = 650" "y_m f2 = 200" "width_m f2 = 80"
    by (simp_all add: f2_def f_def FuelGauge_ctor_def small_gauge_radius_def)
  then have "mjr_context_m f2 \<noteq> None"
    by simp
  from FuelGauge_render_last [OF this]
  have l: "FuelGauge_render f2 \<noteq> []"
    "last (FuelGauge_render f2) = mjr_text 0 ''FUEL'' (Some 0) 650 110 1 1 1"
    by (simp_all add: c)
  have fu: "fuel_level (data_m (dash w2)) = 99.998"
    by (simp add: w2_def D2_def w1_def D1_def sample_zero Dashboard_ctor_def)
  have "dash_mjr_context_m (dash w2) = None"
    by (simp add: w2_def)
  moreover have "length (screen w1) < length (screen w2)"
    using l(1) by (simp add: w2_def)
  moreover have "last (screen w2) = mjr_text 0 ''FUEL'' (Some 0) 650 110 1 1 1"
    using l by (simp add: w2_def)
  ultimately show ?thesis
    by (simp add: e1 e2 fu)
qed

text \<open>
  C8, as stated: every gauge draws a label only at every other mark. The tachometer
  draws one at every mark: its mark 1 has the label "1".
\<close>

theorem tachometer_label_counterexample:
  "labels (Tachometer_mark 0 0 80 (Some 0) 1) = [''1'']
   \<and> labels (Tachometer_mark 0 0 80 (Some 0) 1) \<noteq> []"
  by (simp add: Tachometer_mark_eq tick_def label_at_def snprintf_d_def show_int_def
      show_nat.simps)

text \<open>
  C8, amended. Each gauge's \<^verbatim>\<open>render\<close> places its marks (13, 9 and 11 of them) at
  evenly spaced angles over the half circle: the marks it draws are exactly those of
  \<open>i = 0, 1, ...\<close> below the number of marks, in this order, mark \<open>i\<close> at
  \<open>-\<pi>/2 + \<pi> i / 12\<close> on the speedometer, at \<open>-\<pi>/2 + \<pi> i / 8\<close> on the tachometer and at
  \<open>\<pi>/2 - \<pi> i / 10\<close> on the fuel gauge. The speedometer and the fuel gauge draw a label
  at every other mark (the even ones), the tachometer at every mark: the texts a render
  draws are at the positions of these labels, followed by the readout, the unit and the
  name. The label of the speedometer's mark \<open>i\<close> is the scale value \<open>20 i\<close>, that of the
  tachometer's is \<open>i\<close>: a drawn speedometer shows 0, 40, ..., 240 and a drawn tachometer
  0, 1, ..., 8, whatever the stored value.
\<close>

theorem scale_marks:
  "Speedometer_num_marks = 13 \<and> Tachometer_num_marks = 9 \<and> FuelGauge_num_marks = 11
   \<and> Speedometer_mark_angle i = - pi / 2 + pi * real i / 12
   \<and> Tachometer_mark_angle i = - pi / 2 + pi * real i / 8
   \<and> FuelGauge_mark_angle i = pi / 2 - pi * real i / 10
   \<and> Speedometer_mark cx cy r c i =
       tick cx cy r (Speedometer_mark_angle i)
       # (if even i
          then [label_at (snprintf_d (20 * int i)) c cx cy (r - 30) (Speedometer_mark_angle i)]
          else [])
   \<and> Tachometer_mark cx cy r c i =
       [tick cx cy r (Tachometer_mark_angle i),
        label_at (snprintf_d (int i)) c cx cy (r - 25) (Tachometer_mark_angle i)]
   \<and> (\<exists>txt. FuelGauge_mark cx cy r c v i =
         tick cx cy r (FuelGauge_mark_angle i)
         # (if even i then [label_at txt c cx cy (r - 25) (FuelGauge_mark_angle i)] else []))
   \<and> hd (FuelGauge_mark cx cy r c v i) = tick cx cy r (FuelGauge_mark_angle i)
   \<and> length (FuelGauge_mark cx cy r c v i) = (if even i then 2 else 1)
   \<and> length (labels (FuelGauge_mark cx cy r c v i)) = (if even i then 1 else 0)
   \<and> (mjr_context_m s \<noteq> None \<longrightarrow>
        ticks (Speedometer_render s)
          = map (\<lambda>i. tick (x_m s) (y_m s) (width_m s) (Speedometer_mark_angle i)) [0..<13]
        \<and> text_positions (Speedometer_render s)
          = map (\<lambda>i. label_position (x_m s) (y_m s) (width_m s - 30)
                        (Speedometer_mark_angle i)) (filter even [0..<13])
            @ [(x_m s, y_m s + 5), (x_m s, y_m s - 15), (x_m s, y_m s - width_m s - 10)]
        \<and> labels (Speedometer_render s)
          = [''0'', ''40'', ''80'', ''120'', ''160'', ''200'', ''240'',
             snprintf_0f (Speedometer_clamp (speed_m s)), ''km/h'', ''SPEED''])
   \<and> (mjr_context_m t \<noteq> None \<longrightarrow>
        ticks (Tachometer_render t)
          = map (\<lambda>i. tick (x_m t) (y_m t) (width_m t) (Tachometer_mark_angle i)) [0..<9]
        \<and> text_positions (Tachometer_render t)
          = map (\<lambda>i. label_position (x_m t) (y_m t) (width_m t - 25)
                        (Tachometer_mark_angle i)) [0..<9]
            @ [(x_m t, y_m t + 5), (x_m t, y_m t - 15), (x_m t, y_m t - width_m t - 10)]
        \<and> labels (Tachometer_render t)
          = map (\<lambda>i. snprintf_d (int i)) [0..<9]
            @ [snprintf_0f (Tachometer_clamp (rpm_m t) / 1000), ''RPM'', ''TACH''])
   \<and> (mjr_context_m f \<noteq> None \<longrightarrow>
        ticks (FuelGauge_render f)
          = map (\<lambda>i. tick (x_m f) (y_m f) (width_m f) (FuelGauge_mark_angle i)) [0..<11]
        \<and> text_positions (FuelGauge_render f)
          = map (\<lambda>i. label_position (x_m f) (y_m f) (width_m f - 25)
                        (FuelGauge_mark_angle i)) (filter even [0..<11])
            @ [(x_m f, y_m f + 5), (x_m f, y_m f - 15), (x_m f, y_m f - width_m f - 10)])"
proof -
  have n: "Speedometer_num_marks = 13" "Tachometer_num_marks = 9" "FuelGauge_num_marks = 11"
    by (simp_all add: Speedometer_num_marks_def Tachometer_num_marks_def
        FuelGauge_num_marks_def)
  have fm: "\<exists>txt. FuelGauge_mark cx cy r c v i =
         tick cx cy r (FuelGauge_mark_angle i)
         # (if even i then [label_at txt c cx cy (r - 25) (FuelGauge_mark_angle i)] else [])"
    using FuelGauge_mark_eq [of cx cy r c v i] by blast
  have fl: "hd (FuelGauge_mark cx cy r c v i) = tick cx cy r (FuelGauge_mark_angle i)"
    "length (FuelGauge_mark cx cy r c v i) = (if even i then 2 else 1)"
    "length (labels (FuelGauge_mark cx cy r c v i)) = (if even i then 1 else 0)"
    by (simp_all add: FuelGauge_mark_eq tick_def label_at_def)
  note a = Speedometer_mark_angle_eq [of i] Tachometer_mark_angle_eq [of i]
    FuelGauge_mark_angle_eq [of i]
  note m = Speedometer_mark_eq [of cx cy r c i] Tachometer_mark_eq [of cx cy r c i]
  note rs = ticks_Speedometer_render [of s] text_positions_Speedometer_render [of s]
    labels_Speedometer_render [of s]
  note rt = ticks_Tachometer_render [of t] text_positions_Tachometer_render [of t]
    labels_Tachometer_render [of t]
  note rf = ticks_FuelGauge_render [of f] text_positions_FuelGauge_render [of f]
  show ?thesis
    by (intro conjI impI n a m fm fl rs rt rf)
qed


theorem scale_marks_witness:
  "mjr_context_m (Speedometer_ctor 400 200 150 150 (Some 0)) \<noteq> None
   \<and> labels (Speedometer_render (Speedometer_ctor 400 200 150 150 (Some 0)))
       = [''0'', ''40'', ''80'', ''120'', ''160'', ''200'', ''240'', ''0'', ''km/h'', ''SPEED'']
   \<and> length (ticks (Speedometer_render (Speedometer_ctor 400 200 150 150 (Some 0)))) = 13
   \<and> length (text_positions (Speedometer_render (Speedometer_ctor 400 200 150 150 (Some 0))))
       = 10
   \<and> mjr_context_m (Tachometer_update 5000 (Tachometer_ctor 150 200 80 80 (Some 0))) \<noteq> None
   \<and> drop 7 (labels (Tachometer_render
                  (Tachometer_update 5000 (Tachometer_ctor 150 200 80 80 (Some 0)))))
       = [''7'', ''8'', ''5'', ''RPM'', ''TACH'']
   \<and> length (ticks (Tachometer_render
                  (Tachometer_update 5000 (Tachometer_ctor 150 200 80 80 (Some 0))))) = 9
   \<and> length (text_positions (Tachometer_render
                  (Tachometer_update 5000 (Tachometer_ctor 150 200 80 80 (Some 0))))) = 12
   \<and> mjr_context_m (FuelGauge_update 40 (FuelGauge_ctor 650 200 80 80 (Some 0))) \<noteq> None
   \<and> length (ticks (FuelGauge_render
                  (FuelGauge_update 40 (FuelGauge_ctor 650 200 80 80 (Some 0))))) = 11
   \<and> length (text_positions (FuelGauge_render
                  (FuelGauge_update 40 (FuelGauge_ctor 650 200 80 80 (Some 0))))) = 9
   \<and> labels (Speedometer_mark 400 200 150 (Some 0) 3) = []
   \<and> labels (Speedometer_mark 400 200 150 (Some 0) 4) = [''80'']"
proof -
  define S where "S = Speedometer_ctor 400 200 150 150 (Some 0)"
  define T where "T = Tachometer_update 5000 (Tachometer_ctor 150 200 80 80 (Some 0))"
  define F where "F = FuelGauge_update 40 (FuelGauge_ctor 650 200 80 80 (Some 0))"
  have c: "mjr_context_m S \<noteq> None" "mjr_context_m T \<noteq> None" "mjr_context_m F \<noteq> None"
    by (simp_all add: S_def T_def F_def Speedometer_ctor_def Tachometer_ctor_def
        FuelGauge_ctor_def Tachometer_update_def FuelGauge_update_def)
  have v: "snprintf_0f (Speedometer_clamp (speed_m S)) = ''0''"
    "snprintf_0f (Tachometer_clamp (rpm_m T) / 1000) = ''5''"
    by (simp_all add: S_def T_def Speedometer_ctor_def Tachometer_ctor_def
        Tachometer_update_def Speedometer_clamp_def Tachometer_clamp_def min_speed_def
        max_speed_def min_rpm_def max_rpm_def snprintf_0f_def round_half_even_def
        show_int_def show_nat.simps)
  have d: "snprintf_d 7 = ''7''" "snprintf_d 8 = ''8''" "snprintf_d (20 * int 4) = ''80''"
    by (simp_all add: snprintf_d_def show_int_def show_nat.simps)
  have e: "length (filter even [0..<13 :: nat]) = 7" "length (filter even [0..<11 :: nat]) = 6"
    by (simp_all add: upt_13 upt_11)
  note three = scale_marks [where i = 3 and cx = 400 and cy = 200 and r = 150
      and c = "Some 0" and s = S and t = T and f = F]
  note four = scale_marks [where i = 4 and cx = 400 and cy = 200 and r = 150
      and c = "Some 0" and s = S and t = T and f = F]
  have "labels (Speedometer_render S)
       = [''0'', ''40'', ''80'', ''120'', ''160'', ''200'', ''240'',
          snprintf_0f (Speedometer_clamp (speed_m S)), ''km/h'', ''SPEED'']"
    using three c(1) by blast
  then have l1: "labels (Speedometer_render S)
       = [''0'', ''40'', ''80'', ''120'', ''160'', ''200'', ''240'', ''0'', ''km/h'', ''SPEED'']"
    by (simp only: v(1))
  have "ticks (Speedometer_render S)
          = map (\<lambda>i. tick (x_m S) (y_m S) (width_m S) (Speedometer_mark_angle i)) [0..<13]"
    using three c(1) by blast
  then have k1: "length (ticks (Speedometer_render S)) = 13"
    by simp
  have "text_positions (Speedometer_render S)
          = map (\<lambda>i. label_position (x_m S) (y_m S) (width_m S - 30)
                        (Speedometer_mark_angle i)) (filter even [0..<13])
            @ [(x_m S, y_m S + 5), (x_m S, y_m S - 15), (x_m S, y_m S - width_m S - 10)]"
    using three c(1) by blast
  then have p1: "length (text_positions (Speedometer_render S)) = 10"
    by (simp only: length_append length_map e) simp
  have "labels (Tachometer_render T)
       = map (\<lambda>i. snprintf_d (int i)) [0..<9]
         @ [snprintf_0f (Tachometer_clamp (rpm_m T) / 1000), ''RPM'', ''TACH'']"
    using three c(2) by blast
  then have l2: "drop 7 (labels (Tachometer_render T)) = [''7'', ''8'', ''5'', ''RPM'', ''TACH'']"
    by (simp add: upt_9 d v(2))
  have "ticks (Tachometer_render T)
          = map (\<lambda>i. tick (x_m T) (y_m T) (width_m T) (Tachometer_mark_angle i)) [0..<9]"
    using three c(2) by blast
  then have k2: "length (ticks (Tachometer_render T)) = 9"
    by simp
  have "text_positions (Tachometer_render T)
          = map (\<lambda>i. label_position (x_m T) (y_m T) (width_m T - 25)
                        (Tachometer_mark_angle i)) [0..<9]
            @ [(x_m T, y_m T + 5), (x_m T, y_m T - 15), (x_m T, y_m T - width_m T - 10)]"
    using three c(2) by blast
  then have p2: "length (text_positions (Tachometer_render T)) = 12"
    by simp
  have "ticks (FuelGauge_render F)
          = map (\<lambda>i. tick (x_m F) (y_m F) (width_m F) (FuelGauge_mark_angle i)) [0..<11]"
    using three c(3) by blast
  then have k3: "length (ticks (FuelGauge_render F)) = 11"
    by simp
  have "text_positions (FuelGauge_render F)
          = map (\<lambda>i. label_position (x_m F) (y_m F) (width_m F - 25)
                        (FuelGauge_mark_angle i)) (filter even [0..<11])
            @ [(x_m F, y_m F + 5), (x_m F, y_m F - 15), (x_m F, y_m F - width_m F - 10)]"
    using three c(3) by blast
  then have p3: "length (text_positions (FuelGauge_render F)) = 9"
    by (simp only: length_append length_map e) simp
  have "Speedometer_mark 400 200 150 (Some 0) 3
          = tick 400 200 150 (Speedometer_mark_angle 3)
            # (if even (3 :: nat)
               then [label_at (snprintf_d (20 * int 3)) (Some 0) 400 200 (150 - 30)
                       (Speedometer_mark_angle 3)]
               else [])"
    using three by blast
  then have l3: "labels (Speedometer_mark 400 200 150 (Some 0) 3) = []"
    by (simp add: tick_def)
  have "Speedometer_mark 400 200 150 (Some 0) 4
          = tick 400 200 150 (Speedometer_mark_angle 4)
            # (if even (4 :: nat)
               then [label_at (snprintf_d (20 * int 4)) (Some 0) 400 200 (150 - 30)
                       (Speedometer_mark_angle 4)]
               else [])"
    using four by blast
  then have l4: "labels (Speedometer_mark 400 200 150 (Some 0) 4) = [''80'']"
    using d(3) by (simp add: tick_def label_at_def)
  from c l1 k1 p1 l2 k2 p2 k3 p3 l3 l4 show ?thesis
    unfolding S_def T_def F_def by blast
qed

end
